theory Spec2Isabelle
  imports Main
begin

section \<open>The PDF service: data model\<close>

text \<open>
  The development embeds \<^verbatim>\<open>src/server.js\<close>. Node runs the program on one thread:
  a callback runs to its next \<^verbatim>\<open>await\<close> of an external operation without
  interruption. The model therefore takes as atomic steps the arrival of a request, the
  settling of the promise a job awaits, the firing of a job's 90 s admission timer and the
  disconnection of a browser; a schedule is a list of such events, and any interleaving of
  the jobs is a schedule. An await of a value that is already there (a browser that is
  connected, a font that is cached, a slot that is free) yields to nothing the program can
  observe, and the job goes on within the same step; so does a job whose resolver
  \<^verbatim>\<open>releaseSlot\<close> calls. Each external call is written to a trace together with the
  job that made it.

  The rate limiter, the routes \<^verbatim>\<open>/health\<close> and \<^verbatim>\<open>/debug/fonts\<close>, the warm-up at
  start-up, the keep-alive timer and the shutdown handler are left out: none of them
  touches \<^verbatim>\<open>activeJobs\<close> or \<^verbatim>\<open>waitQueue\<close>, and what the warm-up and the diagnostics
  route do to \<^verbatim>\<open>browser\<close> and \<^verbatim>\<open>fontCSSCache\<close> they do through \<^verbatim>\<open>getBrowser\<close> and
  \<^verbatim>\<open>getFontCSS\<close>, as the jobs do.
\<close>

subsection \<open>JavaScript values\<close>

text \<open>
  The fields of the JSON body may hold any JSON value. The numbers of the model are the
  integers; a fraction is truthy and its decimal form names no font, as with an integer
  that is not zero. An object is given by nothing but its being one, and is one that has
  no property of its own named \<^verbatim>\<open>toString\<close>. (An object that has one cannot be
  converted to a string: the handler throws a \<^verbatim>\<open>TypeError\<close> where it converts the
  value, which the \<^verbatim>\<open>catch\<close> block answers with 500. Bodies that hold such an object
  are not among the requests of the model.)
\<close>

datatype jsval =
  JUndefined | JNull | JBool bool | JNum int | JStr string | JArr "jsval list" | JObj

fun truthy :: "jsval \<Rightarrow> bool" where
  "truthy JUndefined = False"
| "truthy JNull = False"
| "truthy (JBool b) = b"
| "truthy (JNum n) = (n \<noteq> 0)"
| "truthy (JStr s) = (s \<noteq> [])"
| "truthy (JArr xs) = True"
| "truthy JObj = True"

text \<open>
  The conversion of a value to a string, which JavaScript applies to the key of a property
  access such as \<^verbatim>\<open>FONT_URLS[fontFamily]\<close>. An array is converted by
  \<^verbatim>\<open>Array.prototype.join\<close>: its elements converted in turn, \<^verbatim>\<open>null\<close> and
  \<^verbatim>\<open>undefined\<close> to the empty string, and separated by commas. A number is written in
  decimal digits (JavaScript writes an integer of more than 21 digits with an exponent;
  that form, too, begins with a digit or a minus sign).
\<close>

fun show_nat :: "nat \<Rightarrow> string" where
  "show_nat n =
     (if n < 10 then [''0123456789'' ! n]
      else show_nat (n div 10) @ [''0123456789'' ! (n mod 10)])"

declare show_nat.simps [simp del]

definition show_int :: "int \<Rightarrow> string" where
  "show_int n = (if n < 0 then CHR ''-'' # show_nat (nat (- n)) else show_nat (nat n))"

fun array_join :: "string list \<Rightarrow> string" where
  "array_join [] = []"
| "array_join [x] = x"
| "array_join (x # y # ys) = x @ '','' @ array_join (y # ys)"

fun ToString :: "jsval \<Rightarrow> string" where
  "ToString JUndefined = ''undefined''"
| "ToString JNull = ''null''"
| "ToString (JBool b) = (if b then ''true'' else ''false'')"
| "ToString (JNum n) = show_int n"
| "ToString (JStr s) = s"
| "ToString (JArr xs) =
     array_join (map (\<lambda>x. if x = JUndefined \<or> x = JNull then [] else ToString x) xs)"
| "ToString JObj = ''[object Object]''"

text \<open>\<^verbatim>\<open>String.prototype.includes\<close> on the characters of a message.\<close>

fun startsWith :: "string \<Rightarrow> string \<Rightarrow> bool" where
  "startsWith xs [] = True"
| "startsWith [] (y # ys) = False"
| "startsWith (x # xs) (y # ys) = (x = y \<and> startsWith xs ys)"

fun str_includes :: "string \<Rightarrow> string \<Rightarrow> bool" where
  "str_includes [] sub = (sub = [])"
| "str_includes (c # cs) sub = (startsWith (c # cs) sub \<or> str_includes cs sub)"

subsection \<open>Configuration and requests\<close>

text \<open>
  The module constants read from the environment (\<^verbatim>\<open>PDF_API_KEY\<close>,
  \<^verbatim>\<open>MAX_CONCURRENT\<close>) and the font face that \<^verbatim>\<open>loadInterFont\<close> builds once at
  start-up. \<^verbatim>\<open>parseInt\<close> may yield any integer, also a negative one; its result
  \<^verbatim>\<open>NaN\<close> on a non-numeric setting is outside the model.
\<close>

record config =
  API_KEY :: string
  MAX_CONCURRENT :: int
  interFontCSS :: string

text \<open>
  A request: the header \<^verbatim>\<open>x-api-key\<close> (absent or a string) and the four fields the
  handler destructures from the body, \<^verbatim>\<open>JUndefined\<close> for a field that is absent.
\<close>

record request =
  x_api_key :: "string option"
  html :: jsval
  css :: jsval
  format :: jsval
  fontFamily :: jsval

text \<open>
  \<^verbatim>\<open>FONT_URLS\<close> is a plain object, and \<^verbatim>\<open>FONT_URLS[key]\<close> finds the properties it
  inherits from \<^verbatim>\<open>Object.prototype\<close> as well as its own seven. An inherited property
  holds a function, or, under \<^verbatim>\<open>__proto__\<close>, the prototype object itself: each is
  truthy, and each is given here by the string that \<^verbatim>\<open>fetch\<close> makes of its argument.
  (Such a string is no URL and \<^verbatim>\<open>fetch\<close> rejects it; the model leaves the outcome of
  every fetch to the schedule.)
\<close>

definition native_function :: "string \<Rightarrow> string" where
  "native_function name = ''function '' @ name @ ''() { [native code] }''"

definition Object_prototype :: "(string \<times> string) list" where
  "Object_prototype =
    [(''constructor'', native_function ''Object''),
     (''__defineGetter__'', native_function ''__defineGetter__''),
     (''__defineSetter__'', native_function ''__defineSetter__''),
     (''hasOwnProperty'', native_function ''hasOwnProperty''),
     (''__lookupGetter__'', native_function ''__lookupGetter__''),
     (''__lookupSetter__'', native_function ''__lookupSetter__''),
     (''isPrototypeOf'', native_function ''isPrototypeOf''),
     (''propertyIsEnumerable'', native_function ''propertyIsEnumerable''),
     (''toString'', native_function ''toString''),
     (''valueOf'', native_function ''valueOf''),
     (''__proto__'', ''[object Object]''),
     (''toLocaleString'', native_function ''toLocaleString'')]"

definition FONT_URLS :: "string \<Rightarrow> string option" where
  "FONT_URLS = map_of
    ([(''Inter'', ''https://fonts.googleapis.com/css2?family=Inter:wght@300;400;500;600;700&display=swap''),
      (''Noto Serif'', ''https://fonts.googleapis.com/css2?family=Noto+Serif:ital,wght@0,400;0,500;0,600;0,700;1,400&display=swap''),
      (''Roboto'', ''https://fonts.googleapis.com/css2?family=Roboto:wght@300;400;500;700&display=swap''),
      (''Open Sans'', ''https://fonts.googleapis.com/css2?family=Open+Sans:wght@300;400;600;700&display=swap''),
      (''Lato'', ''https://fonts.googleapis.com/css2?family=Lato:wght@300;400;700&display=swap''),
      (''Montserrat'', ''https://fonts.googleapis.com/css2?family=Montserrat:wght@300;400;500;600;700&display=swap''),
      (''Playfair Display'', ''https://fonts.googleapis.com/css2?family=Playfair+Display:wght@400;500;600;700&display=swap'')]
     @ Object_prototype)"

text \<open>The \<^verbatim>\<open>@font-face\<close> rule used when the local Inter file could not be read.\<close>

definition localInterFontFace :: string where
  "localInterFontFace =
     [CHR 0x0A] @ ''      @font-face {'' @
     [CHR 0x0A] @ ''        font-family: '' @ [CHR 0x27] @ ''Inter'' @ [CHR 0x27] @ '';'' @
     [CHR 0x0A] @ ''        src: local('' @ [CHR 0x27] @ ''Inter'' @ [CHR 0x27] @ '');'' @
     [CHR 0x0A] @ ''        font-weight: 100 900;'' @
     [CHR 0x0A] @ ''        font-style: normal;'' @
     [CHR 0x0A] @ ''        font-display: swap;'' @
     [CHR 0x0A] @ ''      }'' @
     [CHR 0x0A] @ ''    ''"

text \<open>
  \<^verbatim>\<open>const { html, css, format = 'A4', fontFamily } = req.body\<close>: the default replaces
  only an absent field. \<^verbatim>\<open>format === 'Letter' ? 'letter' : 'a4'\<close> is a strict
  comparison with a string.
\<close>

definition format_or_default :: "request \<Rightarrow> jsval" where
  "format_or_default r = (if format r = JUndefined then JStr ''A4'' else format r)"

definition pdf_format :: "request \<Rightarrow> string" where
  "pdf_format r = (if format_or_default r = JStr ''Letter'' then ''letter'' else ''a4'')"

subsection \<open>Jobs, effects and the server state\<close>

type_synonym jid = nat
type_synonym handle = nat

text \<open>What a settled promise delivers: a value (the text of a response, the bytes of a
  PDF; unused elsewhere) or a rejection, given by the \<^verbatim>\<open>message\<close> of the error (empty
  when the error has none: both are falsy and contain no substring).\<close>

datatype outcome = Resolved string | Rejected string

text \<open>The external operation a job is suspended on.\<close>

datatype pc =
    AwaitSlot
  | AwaitStaleClose
  | AwaitLaunch handle
  | AwaitNewPage handle
  | AwaitSetJS
  | AwaitViewport
  | AwaitFetch string
  | AwaitText string
  | AwaitSetContent
  | AwaitPdf
  | AwaitCrashClose handle
  | AwaitPageClose
  | Finished

text \<open>The external calls a job makes, one constructor for each call in the source
  (\<^verbatim>\<open>Respond\<close> carries the HTTP status), and two marks at the ends of a slot's
  tenure: \<^verbatim>\<open>SlotAcquired\<close> where \<^verbatim>\<open>await Promise.race([acquireSlot(), slotTimeout])\<close>
  returns, \<^verbatim>\<open>ReleaseSlot\<close> where the \<^verbatim>\<open>finally\<close> block calls \<^verbatim>\<open>releaseSlot()\<close>.\<close>

datatype effect =
    Launch handle
  | BrowserClose handle
  | NewPage handle
  | SetJavaScriptEnabled
  | SetViewport
  | Fetch string
  | ResText
  | SetContent string jsval jsval
  | PagePdf string
  | PageClose
  | Respond nat
  | SlotAcquired
  | ReleaseSlot

text \<open>The locals of one run of the handler: the request, where it is suspended, whether
  \<^verbatim>\<open>page\<close> has been assigned, the font CSS built so far, and the status sent
  (\<^verbatim>\<open>res.headersSent\<close> is \<open>responded \<noteq> None\<close>).\<close>

record job =
  jreq :: request
  pc :: pc
  page :: bool
  fontCSS :: string
  responded :: "nat option"

text \<open>
  The module state: \<^verbatim>\<open>activeJobs\<close>, \<^verbatim>\<open>waitQueue\<close> (a resolver is named by the job
  that enqueued it), \<^verbatim>\<open>browser\<close> (\<open>None\<close> for \<^verbatim>\<open>undefined\<close> and \<^verbatim>\<open>null\<close>) and
  the Map \<^verbatim>\<open>fontCSSCache\<close>; the \<^verbatim>\<open>connected\<close> flag of every browser; the jobs; and
  the trace of external calls. Browsers and jobs are numbered in the order of their
  creation.

  The Map is held in two parts. \<open>fontCSSCache\<close> has the entries whose key is a string; a
  Map finds such a key by its value. \<open>fontCSSCacheByObject\<close> has the entries whose key is
  not a string, each with the job that stored it: the key is then the array that the body
  of that job's request holds, and a Map finds an array by its identity only.
\<close>

record server =
  activeJobs :: int
  waitQueue :: "jid list"
  browser :: "handle option"
  fontCSSCache :: "string \<Rightarrow> string option"
  fontCSSCacheByObject :: "(jid \<times> string) list"
  browserConnected :: "handle \<Rightarrow> bool"
  nextHandle :: handle
  nextJob :: jid
  jobs :: "jid \<Rightarrow> job option"
  trace :: "(jid \<times> effect) list"

definition init :: server where
  "init = \<lparr> activeJobs = 0, waitQueue = [], browser = None, fontCSSCache = (\<lambda>k. None),
            fontCSSCacheByObject = [], browserConnected = (\<lambda>h. False), nextHandle = 0,
            nextJob = 0, jobs = (\<lambda>j. None), trace = [] \<rparr>"

definition emit :: "jid \<Rightarrow> effect \<Rightarrow> server \<Rightarrow> server" where
  "emit j e s = s\<lparr>trace := trace s @ [(j, e)]\<rparr>"

definition upd_job :: "jid \<Rightarrow> (job \<Rightarrow> job) \<Rightarrow> server \<Rightarrow> server" where
  "upd_job j f s = (case jobs s j of None \<Rightarrow> s | Some jb \<Rightarrow> s\<lparr>jobs := (jobs s)(j \<mapsto> f jb)\<rparr>)"

definition set_pc :: "jid \<Rightarrow> pc \<Rightarrow> server \<Rightarrow> server" where
  "set_pc j p s = upd_job j (\<lambda>jb. jb\<lparr>pc := p\<rparr>) s"


subsection \<open>Admission: \<^verbatim>\<open>acquireSlot\<close> and \<^verbatim>\<open>releaseSlot\<close>\<close>

text \<open>
  \<^verbatim>\<open>acquireSlot\<close> runs the executor of its promise at once: it either counts the job
  in and resolves (the flag returned is \<open>True\<close>) or pushes the resolver onto
  \<^verbatim>\<open>waitQueue\<close>. \<^verbatim>\<open>releaseSlot\<close> shifts the oldest resolver off the queue and calls
  it, leaving the count alone, or decrements the count when the queue is empty; it returns
  the resolver it called.
\<close>

definition acquireSlot :: "config \<Rightarrow> jid \<Rightarrow> server \<Rightarrow> bool \<times> server" where
  "acquireSlot cfg j s =
     (if activeJobs s < MAX_CONCURRENT cfg
      then (True, s\<lparr>activeJobs := activeJobs s + 1\<rparr>)
      else (False, s\<lparr>waitQueue := waitQueue s @ [j]\<rparr>))"

definition releaseSlot :: "server \<Rightarrow> jid option \<times> server" where
  "releaseSlot s =
     (case waitQueue s of
        w # rest \<Rightarrow> (Some w, s\<lparr>waitQueue := rest\<rparr>)
      | [] \<Rightarrow> (None, s\<lparr>activeJobs := activeJobs s - 1\<rparr>))"

subsection \<open>\<^verbatim>\<open>getBrowser\<close>\<close>

text \<open>
  An async function is cut at its awaits. Entering it either returns at once or suspends
  the caller on an external operation; the caller is resumed by the function's next piece.
\<close>

datatype 'a susp = Return 'a | Suspend pc

definition launch :: "jid \<Rightarrow> server \<Rightarrow> handle susp \<times> server" where
  "launch j s =
     (Suspend (AwaitLaunch (nextHandle s)),
      emit j (Launch (nextHandle s)) (s\<lparr>nextHandle := Suc (nextHandle s)\<rparr>))"

definition getBrowser :: "jid \<Rightarrow> server \<Rightarrow> handle susp \<times> server" where
  "getBrowser j s =
     (case browser s of
        None \<Rightarrow> launch j s
      | Some h \<Rightarrow>
          if browserConnected s h then (Return h, s)
          else (Suspend AwaitStaleClose, emit j (BrowserClose h) s))"

text \<open>After \<^verbatim>\<open>try { await browser.close(); } catch {}\<close>, whatever its outcome.\<close>

definition getBrowser_closed :: "jid \<Rightarrow> server \<Rightarrow> handle susp \<times> server" where
  "getBrowser_closed j s = launch j s"

text \<open>After \<^verbatim>\<open>await puppeteer.launch(...)\<close>: the new browser is stored and returned,
  or the rejection is thrown to the caller (\<open>Inl\<close>).\<close>

definition getBrowser_launched :: "handle \<Rightarrow> outcome \<Rightarrow> server \<Rightarrow> (string + handle) \<times> server" where
  "getBrowser_launched h out s =
     (case out of
        Resolved v \<Rightarrow>
          (Inr h, s\<lparr>browser := Some h, browserConnected := (browserConnected s)(h := True)\<rparr>)
      | Rejected e \<Rightarrow> (Inl e, s))"

subsection \<open>\<^verbatim>\<open>getFontCSS\<close>\<close>

text \<open>
  \<^verbatim>\<open>fontCSSCache.has(fontName)\<close> and \<^verbatim>\<open>fontCSSCache.set(fontName, css)\<close>, where
  \<^verbatim>\<open>fontName\<close> is the value the caller passed, not the property key made of it. A
  string is looked up by its value. An array is looked up by its identity: the array of a
  request body is passed to \<^verbatim>\<open>getFontCSS\<close> once, before anything is stored under it,
  so its lookup finds nothing, and what is stored under it no later lookup finds. (A
  value that is neither a string nor an array never gets as far as the lookup: its key
  names no property of \<^verbatim>\<open>FONT_URLS\<close>.)
\<close>

definition cache_get :: "jsval \<Rightarrow> server \<Rightarrow> string option" where
  "cache_get fontName s = (case fontName of JStr k \<Rightarrow> fontCSSCache s k | _ \<Rightarrow> None)"

definition cache_set :: "jid \<Rightarrow> jsval \<Rightarrow> string \<Rightarrow> server \<Rightarrow> server" where
  "cache_set j fontName c s =
     (case fontName of
        JStr k \<Rightarrow> s\<lparr>fontCSSCache := (fontCSSCache s)(k \<mapsto> c)\<rparr>
      | _ \<Rightarrow> s\<lparr>fontCSSCacheByObject := fontCSSCacheByObject s @ [(j, c)]\<rparr>)"

definition getFontCSS :: "jid \<Rightarrow> jsval \<Rightarrow> server \<Rightarrow> string susp \<times> server" where
  "getFontCSS j fontName s =
     (case FONT_URLS (ToString fontName) of
        None \<Rightarrow> (Return [], s)
      | Some url \<Rightarrow>
          (case cache_get fontName s of
             Some cached \<Rightarrow> (Return cached, s)
           | None \<Rightarrow> (Suspend (AwaitFetch (ToString fontName)), emit j (Fetch url) s)))"

text \<open>After \<^verbatim>\<open>await fetch(...)\<close>: \<^verbatim>\<open>res.text()\<close> is called, or the \<^verbatim>\<open>catch\<close> returns
  the empty string.\<close>

definition getFontCSS_fetched :: "jid \<Rightarrow> string \<Rightarrow> outcome \<Rightarrow> server \<Rightarrow> string susp \<times> server" where
  "getFontCSS_fetched j key out s =
     (case out of
        Resolved v \<Rightarrow> (Suspend (AwaitText key), emit j ResText s)
      | Rejected e \<Rightarrow> (Return [], s))"

text \<open>After \<^verbatim>\<open>await res.text()\<close>: the text is stored and returned, or the \<^verbatim>\<open>catch\<close>
  returns the empty string.\<close>

definition getFontCSS_text :: "jid \<Rightarrow> jsval \<Rightarrow> outcome \<Rightarrow> server \<Rightarrow> string \<times> server" where
  "getFontCSS_text j fontName out s =
     (case out of
        Resolved text \<Rightarrow> (text, cache_set j fontName text s)
      | Rejected e \<Rightarrow> ([], s))"


subsection \<open>The handler of \<^verbatim>\<open>POST /api/pdf\<close>\<close>

definition respond :: "jid \<Rightarrow> nat \<Rightarrow> server \<Rightarrow> server" where
  "respond j status s = emit j (Respond status) (upd_job j (\<lambda>jb. jb\<lparr>responded := Some status\<rparr>) s)"

text \<open>Once the race is won the \<^verbatim>\<open>try\<close> block opens with
  \<^verbatim>\<open>const b = await getBrowser(); page = await b.newPage()\<close>.\<close>

definition got_browser :: "jid \<Rightarrow> handle \<Rightarrow> server \<Rightarrow> server" where
  "got_browser j h s = set_pc j (AwaitNewPage h) (emit j (NewPage h) s)"

definition render_start :: "jid \<Rightarrow> server \<Rightarrow> server" where
  "render_start j s =
     (case getBrowser j (emit j SlotAcquired s) of
        (Return h, s') \<Rightarrow> got_browser j h s'
      | (Suspend p, s') \<Rightarrow> set_pc j p s')"

text \<open>
  Calling a resolver from the queue resumes the job that waits on it. A job whose race was
  already lost to the timer has answered 504 and returned: resolving its promise then has no
  effect.
\<close>

definition slot_resolved :: "jid \<Rightarrow> server \<Rightarrow> server" where
  "slot_resolved w s =
     (case jobs s w of
        None \<Rightarrow> s
      | Some jb \<Rightarrow> if pc jb = AwaitSlot then render_start w s else s)"

text \<open>The \<^verbatim>\<open>finally\<close> block: \<^verbatim>\<open>if (page) await page.close().catch(() => {})\<close>, then
  \<^verbatim>\<open>releaseSlot()\<close>, after which the handler returns.\<close>

definition finally_release :: "jid \<Rightarrow> server \<Rightarrow> server" where
  "finally_release j s =
     (case releaseSlot (emit j ReleaseSlot s) of
        (None, s') \<Rightarrow> set_pc j Finished s'
      | (Some w, s') \<Rightarrow> slot_resolved w (set_pc j Finished s'))"

definition finally_block :: "jid \<Rightarrow> server \<Rightarrow> server" where
  "finally_block j s =
     (case jobs s j of
        None \<Rightarrow> s
      | Some jb \<Rightarrow>
          if page jb then set_pc j AwaitPageClose (emit j PageClose s)
          else finally_release j s)"

text \<open>The \<^verbatim>\<open>catch\<close> block. An error whose message contains \<^verbatim>\<open>detached\<close>,
  \<^verbatim>\<open>closed\<close> or \<^verbatim>\<open>crashed\<close> makes it close the stored browser, if there is one, and
  set \<^verbatim>\<open>browser = null\<close>; then it answers 500 unless the headers were sent.\<close>

definition crash_class :: "string \<Rightarrow> bool" where
  "crash_class m \<longleftrightarrow>
     m \<noteq> [] \<and> (str_includes m ''detached'' \<or> str_includes m ''closed'' \<or> str_includes m ''crashed'')"

definition catch_tail :: "jid \<Rightarrow> server \<Rightarrow> server" where
  "catch_tail j s =
     (case jobs s j of
        None \<Rightarrow> s
      | Some jb \<Rightarrow> finally_block j (if responded jb = None then respond j 500 s else s))"

definition catch_block :: "jid \<Rightarrow> string \<Rightarrow> server \<Rightarrow> server" where
  "catch_block j e s =
     (if crash_class e
      then (case browser s of
              Some h \<Rightarrow> set_pc j (AwaitCrashClose h) (emit j (BrowserClose h) s)
            | None \<Rightarrow> catch_tail j (s\<lparr>browser := None\<rparr>))
      else catch_tail j s)"

text \<open>After \<^verbatim>\<open>try { if (browser) await browser.close(); } catch {}\<close>, whatever its
  outcome.\<close>

definition crash_closed :: "jid \<Rightarrow> server \<Rightarrow> server" where
  "crash_closed j s = catch_tail j (s\<lparr>browser := None\<rparr>)"

text \<open>The body of the \<^verbatim>\<open>try\<close> block after the page is open.\<close>

definition page_opened :: "jid \<Rightarrow> server \<Rightarrow> server" where
  "page_opened j s =
     set_pc j AwaitSetJS (emit j SetJavaScriptEnabled (upd_job j (\<lambda>jb. jb\<lparr>page := True\<rparr>) s))"

definition js_disabled :: "jid \<Rightarrow> server \<Rightarrow> server" where
  "js_disabled j s = set_pc j AwaitViewport (emit j SetViewport s)"

text \<open>\<^verbatim>\<open>page.setContent(fullHtml, ...)\<close>: the document is given by its three variable
  parts, the font CSS, \<^verbatim>\<open>css || ''\<close> and \<^verbatim>\<open>html\<close>.\<close>

definition set_content :: "jid \<Rightarrow> string \<Rightarrow> server \<Rightarrow> server" where
  "set_content j fcss s =
     (case jobs s j of
        None \<Rightarrow> s
      | Some jb \<Rightarrow>
          set_pc j AwaitSetContent
            (emit j (SetContent fcss (if truthy (css (jreq jb)) then css (jreq jb) else JStr [])
                       (html (jreq jb))) s))"

text \<open>
  \<^verbatim>\<open>let fontCSS = interFontCSS || `...`\<close>, extended by the CSS of a requested font:
  \<^verbatim>\<open>if (fontFamily && fontFamily !== 'Inter' && FONT_URLS[fontFamily])\<close>. The
  comparison is strict, so only the string \<^verbatim>\<open>Inter\<close> itself is excluded; the property
  access converts \<^verbatim>\<open>fontFamily\<close> to a key. \<open>requested_font\<close> gives that key when the
  condition holds.
\<close>

definition requested_font :: "request \<Rightarrow> string option" where
  "requested_font r =
     (if truthy (fontFamily r) \<and> fontFamily r \<noteq> JStr ''Inter''
         \<and> FONT_URLS (ToString (fontFamily r)) \<noteq> None
      then Some (ToString (fontFamily r)) else None)"

text \<open>\<^verbatim>\<open>fontCSS += '\n' + await getFontCSS(fontFamily)\<close>, and the document is set.\<close>

definition viewport_set :: "config \<Rightarrow> jid \<Rightarrow> server \<Rightarrow> server" where
  "viewport_set cfg j s =
     (case jobs s j of
        None \<Rightarrow> s
      | Some jb \<Rightarrow>
          (let base = (if interFontCSS cfg \<noteq> [] then interFontCSS cfg else localInterFontFace)
           in case requested_font (jreq jb) of
                None \<Rightarrow> set_content j base s
              | Some key \<Rightarrow>
                  (case getFontCSS j (fontFamily (jreq jb)) s of
                     (Return fetched, s') \<Rightarrow> set_content j (base @ [CHR 0x0A] @ fetched) s'
                   | (Suspend p, s') \<Rightarrow> set_pc j p (upd_job j (\<lambda>jb. jb\<lparr>fontCSS := base\<rparr>) s'))))"

definition font_fetched :: "jid \<Rightarrow> string \<Rightarrow> outcome \<Rightarrow> server \<Rightarrow> server" where
  "font_fetched j key out s =
     (case jobs s j of
        None \<Rightarrow> s
      | Some jb \<Rightarrow>
          (case getFontCSS_fetched j key out s of
             (Return fetched, s') \<Rightarrow> set_content j (fontCSS jb @ [CHR 0x0A] @ fetched) s'
           | (Suspend p, s') \<Rightarrow> set_pc j p s'))"

definition font_text :: "jid \<Rightarrow> outcome \<Rightarrow> server \<Rightarrow> server" where
  "font_text j out s =
     (case jobs s j of
        None \<Rightarrow> s
      | Some jb \<Rightarrow>
          (case getFontCSS_text j (fontFamily (jreq jb)) out s of
             (fetched, s') \<Rightarrow> set_content j (fontCSS jb @ [CHR 0x0A] @ fetched) s'))"

definition content_set :: "jid \<Rightarrow> server \<Rightarrow> server" where
  "content_set j s =
     (case jobs s j of
        None \<Rightarrow> s
      | Some jb \<Rightarrow> set_pc j AwaitPdf (emit j (PagePdf (pdf_format (jreq jb))) s))"

definition pdf_done :: "jid \<Rightarrow> server \<Rightarrow> server" where
  "pdf_done j s = finally_block j (respond j 200 s)"

text \<open>
  The handler up to its first await. The API key (\<^verbatim>\<open>API_KEY && apiKey !== API_KEY\<close>)
  and the content (\<^verbatim>\<open>!html\<close>) are checked first; then
  the timer is set and \<^verbatim>\<open>acquireSlot()\<close> is called. A job that is counted in goes on
  into the \<^verbatim>\<open>try\<close> block; one that is queued waits in \<^verbatim>\<open>Promise.race\<close>.
\<close>

definition unauthorized :: "config \<Rightarrow> request \<Rightarrow> bool" where
  "unauthorized cfg req \<longleftrightarrow> API_KEY cfg \<noteq> [] \<and> x_api_key req \<noteq> Some (API_KEY cfg)"

definition post :: "config \<Rightarrow> request \<Rightarrow> server \<Rightarrow> server" where
  "post cfg req s =
     (let j = nextJob s;
          new = \<lparr>jreq = req, pc = Finished, page = False, fontCSS = [], responded = None\<rparr>;
          s0 = s\<lparr>nextJob := Suc j, jobs := (jobs s)(j \<mapsto> new)\<rparr>
      in if unauthorized cfg req then respond j 401 s0
         else if \<not> truthy (html req) then respond j 400 s0
         else (case acquireSlot cfg j (set_pc j AwaitSlot s0) of
                 (True, s1) \<Rightarrow> render_start j s1
               | (False, s1) \<Rightarrow> s1))"

text \<open>The timer rejects the race. If the race is still pending the handler answers 504 and
  returns; the resolver it pushed stays in \<^verbatim>\<open>waitQueue\<close>. Otherwise nothing happens.\<close>

definition slot_timeout :: "jid \<Rightarrow> server \<Rightarrow> server" where
  "slot_timeout j s =
     (case jobs s j of
        None \<Rightarrow> s
      | Some jb \<Rightarrow> if pc jb = AwaitSlot then set_pc j Finished (respond j 504 s) else s)"

text \<open>The promise a job awaits settles.\<close>

definition settle :: "config \<Rightarrow> jid \<Rightarrow> outcome \<Rightarrow> server \<Rightarrow> server" where
  "settle cfg j out s =
     (case jobs s j of
        None \<Rightarrow> s
      | Some jb \<Rightarrow>
          (case pc jb of
             AwaitSlot \<Rightarrow> s
           | AwaitStaleClose \<Rightarrow>
               (case getBrowser_closed j s of
                  (Return h, s') \<Rightarrow> got_browser j h s'
                | (Suspend p, s') \<Rightarrow> set_pc j p s')
           | AwaitLaunch h \<Rightarrow>
               (case getBrowser_launched h out s of
                  (Inr b, s') \<Rightarrow> got_browser j b s'
                | (Inl e, s') \<Rightarrow> catch_block j e s')
           | AwaitNewPage h \<Rightarrow>
               (case out of Resolved v \<Rightarrow> page_opened j s | Rejected e \<Rightarrow> catch_block j e s)
           | AwaitSetJS \<Rightarrow>
               (case out of Resolved v \<Rightarrow> js_disabled j s | Rejected e \<Rightarrow> catch_block j e s)
           | AwaitViewport \<Rightarrow>
               (case out of Resolved v \<Rightarrow> viewport_set cfg j s | Rejected e \<Rightarrow> catch_block j e s)
           | AwaitFetch key \<Rightarrow> font_fetched j key out s
           | AwaitText key \<Rightarrow> font_text j out s
           | AwaitSetContent \<Rightarrow>
               (case out of Resolved v \<Rightarrow> content_set j s | Rejected e \<Rightarrow> catch_block j e s)
           | AwaitPdf \<Rightarrow>
               (case out of Resolved v \<Rightarrow> pdf_done j s | Rejected e \<Rightarrow> catch_block j e s)
           | AwaitCrashClose h \<Rightarrow> crash_closed j s
           | AwaitPageClose \<Rightarrow> finally_release j s
           | Finished \<Rightarrow> s))"

subsection \<open>Events and runs\<close>

datatype event = Post request | Settle jid outcome | SlotTimeout jid | Disconnected handle

definition step :: "config \<Rightarrow> event \<Rightarrow> server \<Rightarrow> server" where
  "step cfg ev s =
     (case ev of
        Post req \<Rightarrow> post cfg req s
      | Settle j out \<Rightarrow> settle cfg j out s
      | SlotTimeout j \<Rightarrow> slot_timeout j s
      | Disconnected h \<Rightarrow> s\<lparr>browserConnected := (browserConnected s)(h := False)\<rparr>)"

fun run :: "config \<Rightarrow> event list \<Rightarrow> server \<Rightarrow> server" where
  "run cfg [] s = s"
| "run cfg (ev # evs) s = run cfg evs (step cfg ev s)"

text \<open>What the trace says about one job.\<close>

definition effects_of :: "jid \<Rightarrow> server \<Rightarrow> effect list" where
  "effects_of j s = map snd (filter (\<lambda>x. fst x = j) (trace s))"

definition releases :: "jid \<Rightarrow> server \<Rightarrow> nat" where
  "releases j s = count_list (effects_of j s) ReleaseSlot"

definition acquisitions :: "jid \<Rightarrow> server \<Rightarrow> nat" where
  "acquisitions j s = count_list (effects_of j s) SlotAcquired"

definition page_closes :: "jid \<Rightarrow> server \<Rightarrow> nat" where
  "page_closes j s = count_list (effects_of j s) PageClose"

text \<open>The slots held at a moment: the acquisitions of all jobs less their releases.\<close>

definition held :: "server \<Rightarrow> int" where
  "held s = int (count_list (map snd (trace s)) SlotAcquired)
            - int (count_list (map snd (trace s)) ReleaseSlot)"

subsection \<open>Sequences of admission operations\<close>

text \<open>
  The admission controller on its own: a sequence of calls of \<^verbatim>\<open>acquireSlot\<close> and
  \<^verbatim>\<open>releaseSlot\<close>, with the record of the resolvers called (\<open>Granted\<close>) and of the
  releases made. The slots outstanding after a sequence are the grants not yet matched by
  a release.
\<close>

datatype adm_op = Acquire jid | Release
datatype adm_event = Granted jid | Released

fun adm_step :: "config \<Rightarrow> adm_op \<Rightarrow> server \<Rightarrow> adm_event list \<times> server" where
  "adm_step cfg (Acquire j) s =
     (case acquireSlot cfg j s of (True, s') \<Rightarrow> ([Granted j], s') | (False, s') \<Rightarrow> ([], s'))"
| "adm_step cfg Release s =
     (case releaseSlot s of
        (Some w, s') \<Rightarrow> ([Released, Granted w], s')
      | (None, s') \<Rightarrow> ([Released], s'))"

fun adm_run :: "config \<Rightarrow> adm_op list \<Rightarrow> server \<Rightarrow> adm_event list \<times> server" where
  "adm_run cfg [] s = ([], s)"
| "adm_run cfg (op # ops) s =
     (case adm_step cfg op s of
        (evs, s') \<Rightarrow> (case adm_run cfg ops s' of (evs', s'') \<Rightarrow> (evs @ evs', s'')))"

definition outstanding :: "adm_event list \<Rightarrow> int" where
  "outstanding evs =
     int (length (filter (\<lambda>e. e \<noteq> Released) evs)) - int (count_list evs Released)"

definition adm_inv :: "config \<Rightarrow> server \<Rightarrow> bool" where
  "adm_inv cfg s \<longleftrightarrow> (waitQueue s \<noteq> [] \<longrightarrow> MAX_CONCURRENT cfg \<le> activeJobs s)"

subsection \<open>The invariant of a job\<close>

text \<open>
  Where a job stands: waiting for a slot, launching or opening (no page yet), rendering
  (page open), closing a crashed browser in the \<^verbatim>\<open>catch\<close> block, closing its page in
  the \<^verbatim>\<open>finally\<close> block, or done. For each the invariant fixes how often the job has
  acquired a slot, released one and closed its page.
\<close>

datatype phase = Waiting | Opening | Rendering | CrashClosing | PageClosing | Done

fun phase_of :: "pc \<Rightarrow> phase" where
  "phase_of AwaitSlot = Waiting"
| "phase_of AwaitStaleClose = Opening"
| "phase_of (AwaitLaunch h) = Opening"
| "phase_of (AwaitNewPage h) = Opening"
| "phase_of AwaitSetJS = Rendering"
| "phase_of AwaitViewport = Rendering"
| "phase_of (AwaitFetch f) = Rendering"
| "phase_of (AwaitText f) = Rendering"
| "phase_of AwaitSetContent = Rendering"
| "phase_of AwaitPdf = Rendering"
| "phase_of (AwaitCrashClose h) = CrashClosing"
| "phase_of AwaitPageClose = PageClosing"
| "phase_of Finished = Done"

definition counts_ok :: "job option \<Rightarrow> nat \<Rightarrow> nat \<Rightarrow> nat \<Rightarrow> bool" where
  "counts_ok jo a r c =
     (case jo of
        None \<Rightarrow> a = 0 \<and> r = 0 \<and> c = 0
      | Some jb \<Rightarrow>
          (case phase_of (pc jb) of
             Waiting \<Rightarrow> a = 0 \<and> r = 0 \<and> c = 0 \<and> \<not> page jb \<and> responded jb = None
           | Opening \<Rightarrow> a = 1 \<and> r = 0 \<and> c = 0 \<and> \<not> page jb \<and> responded jb = None
           | Rendering \<Rightarrow> a = 1 \<and> r = 0 \<and> c = 0 \<and> page jb \<and> responded jb = None
           | CrashClosing \<Rightarrow> a = 1 \<and> r = 0 \<and> c = 0 \<and> responded jb = None
           | PageClosing \<Rightarrow> a = 1 \<and> r = 0 \<and> c = 1 \<and> page jb
           | Done \<Rightarrow> a \<le> 1 \<and> r = a \<and> c = (if page jb then a else 0)))"

definition job_ok :: "jid \<Rightarrow> server \<Rightarrow> bool" where
  "job_ok j s = counts_ok (jobs s j) (acquisitions j s) (releases j s) (page_closes j s)"

definition server_inv :: "server \<Rightarrow> bool" where
  "server_inv s \<longleftrightarrow> (\<forall>j. job_ok j s) \<and> (\<forall>j. nextJob s \<le> j \<longrightarrow> jobs s j = None)"

text \<open>All jobs but one are as they should be; the one is inside the try block.\<close>

definition holding :: "jid \<Rightarrow> server \<Rightarrow> bool" where
  "holding j s \<longleftrightarrow>
     (\<forall>i. i \<noteq> j \<longrightarrow> job_ok i s) \<and> (\<forall>i. nextJob s \<le> i \<longrightarrow> jobs s i = None)
     \<and> jobs s j \<noteq> None \<and> acquisitions j s = 1 \<and> releases j s = 0"

subsection \<open>Failure and progress of a job\<close>

text \<open>The awaits of the \<^verbatim>\<open>try\<close> block whose rejection reaches the \<^verbatim>\<open>catch\<close>
  block. (A rejection inside \<^verbatim>\<open>getFontCSS\<close>, of a \<^verbatim>\<open>browser.close()\<close> or of
  \<^verbatim>\<open>page.close()\<close> is swallowed where it occurs.)\<close>

fun throws_to_catch :: "pc \<Rightarrow> bool" where
  "throws_to_catch (AwaitLaunch h) = True"
| "throws_to_catch (AwaitNewPage h) = True"
| "throws_to_catch AwaitSetJS = True"
| "throws_to_catch AwaitViewport = True"
| "throws_to_catch AwaitSetContent = True"
| "throws_to_catch AwaitPdf = True"
| "throws_to_catch p = False"



text \<open>The job has won its race: its handler is in the \<^verbatim>\<open>try\<close> block or beyond.\<close>

definition past_race :: "jid \<Rightarrow> server \<Rightarrow> bool" where
  "past_race j s \<longleftrightarrow> (\<exists>jb. jobs s j = Some jb \<and> pc jb \<noteq> AwaitSlot)"

subsection \<open>What a step of a job does to the slots\<close>



definition slot_kept :: "jid \<Rightarrow> server \<Rightarrow> server \<Rightarrow> bool" where
  "slot_kept j s s' \<longleftrightarrow>
     releases j s' = releases j s \<and> activeJobs s' = activeJobs s \<and> waitQueue s' = waitQueue s
     \<and> held s' = held s \<and> nextJob s' = nextJob s
     \<and> (\<forall>i. i \<noteq> j \<longrightarrow> jobs s' i = jobs s i \<and> acquisitions i s' = acquisitions i s)"



subsection \<open>Concrete configurations, requests and schedules\<close>

definition cfg_open :: config where
  "cfg_open = \<lparr>API_KEY = [], MAX_CONCURRENT = 3, interFontCSS = ''/* Inter */''\<rparr>"

definition cfg_one :: config where
  "cfg_one = \<lparr>API_KEY = [], MAX_CONCURRENT = 1, interFontCSS = []\<rparr>"

definition cfg_keyed :: config where
  "cfg_keyed = \<lparr>API_KEY = ''s3cret'', MAX_CONCURRENT = 3, interFontCSS = []\<rparr>"

definition req_letter :: request where
  "req_letter = \<lparr>x_api_key = None, html = JStr ''<p>cv</p>'', css = JUndefined,
                  format = JStr ''Letter'', fontFamily = JUndefined\<rparr>"

abbreviation ok :: outcome where
  "ok \<equiv> Resolved []"

text \<open>One job, admitted at once, that has opened its page and waits for
  \<^verbatim>\<open>page.setContent\<close>.\<close>

definition at_set_content :: server where
  "at_set_content =
     run cfg_open [Post req_letter, Settle 0 ok, Settle 0 ok, Settle 0 ok, Settle 0 ok] init"

definition req_roboto :: request where
  "req_roboto = \<lparr>x_api_key = None, html = JStr ''<p>cv</p>'', css = JUndefined,
                  format = JUndefined, fontFamily = JStr ''Roboto''\<rparr>"

definition roboto_url :: string where
  "roboto_url =
     ''https://fonts.googleapis.com/css2?family=Roboto:wght@300;400;500;700&display=swap''"

text \<open>Two jobs that ask for Roboto share the browser of the first and are both about to
  look the font up.\<close>

definition both_at_viewport :: server where
  "both_at_viewport =
     run cfg_open [Post req_roboto, Settle 0 ok, Post req_roboto, Settle 0 ok, Settle 1 ok,
                   Settle 0 ok, Settle 1 ok] init"

text \<open>Job 0 has issued its fetch.\<close>

definition one_fetching :: server where
  "one_fetching = step cfg_open (Settle 0 ok) both_at_viewport"

text \<open>The fetch of job 0 fails; then job 1 looks the font up.\<close>

definition fetch_failed :: server where
  "fetch_failed = step cfg_open (Settle 0 (Rejected ''fetch failed'')) one_fetching"

definition refetched :: server where
  "refetched = step cfg_open (Settle 1 ok) fetch_failed"

text \<open>Job 1 looks the font up while the fetch of job 0 is in flight; the fetch of job 0
  succeeds and that of job 1 fails.\<close>

definition both_fetching :: server where
  "both_fetching = step cfg_open (Settle 1 ok) one_fetching"

definition fetched_differently :: server where
  "fetched_differently =
     run cfg_open [Settle 0 ok, Settle 0 (Resolved ''body{}''), Settle 1 (Rejected ''timeout'')]
       both_fetching"

text \<open>
  Job 0 asks for Roboto by its name and job 1 by an array that holds the name. The fetch
  of job 0 has stored its text when job 1 is about to look the font up.
\<close>

definition req_roboto_array :: request where
  "req_roboto_array = \<lparr>x_api_key = None, html = JStr ''<p>cv</p>'', css = JUndefined,
                        format = JUndefined, fontFamily = JArr [JStr ''Roboto'']\<rparr>"

definition array_at_viewport :: server where
  "array_at_viewport =
     run cfg_open [Post req_roboto, Settle 0 ok, Post req_roboto_array, Settle 0 ok, Settle 1 ok,
                   Settle 0 ok, Settle 1 ok, Settle 0 ok, Settle 0 ok,
                   Settle 0 (Resolved ''body{}'')] init"

text \<open>Two requests arrive while no browser is stored; then both launches resolve.\<close>

definition two_callers :: server where
  "two_callers = run cfg_open [Post req_letter, Post req_letter, Settle 0 ok, Settle 1 ok] init"

text \<open>The job of \<open>at_set_content\<close> fails with a target-closed error.\<close>

definition crashed :: server where
  "crashed = step cfg_open (Settle 0 (Rejected ''Protocol error: Target closed'')) at_set_content"

text \<open>One job served from arrival to the return of its handler, and one whose launch
  fails.\<close>

definition served :: server where
  "served =
     run cfg_open [Post req_letter, Settle 0 ok, Settle 0 ok, Settle 0 ok, Settle 0 ok,
                   Settle 0 ok, Settle 0 (Resolved ''%PDF''), Settle 0 ok] init"

definition launch_failed :: server where
  "launch_failed =
     run cfg_open [Post req_letter, Settle 0 (Rejected ''Failed to launch the browser process'')]
       init"

text \<open>Capacity one and two requests: job 1 queues while job 0 is served up to the
  close of its page.\<close>

definition page_closing :: server where
  "page_closing =
     run cfg_one [Post req_letter, Post req_letter, Settle 0 ok, Settle 0 ok, Settle 0 ok,
                  Settle 0 ok, Settle 0 ok, Settle 0 (Resolved ''%PDF'')] init"

text \<open>
  Capacity one and three requests. Job 0 is admitted, jobs 1 and 2 queue. The timer of
  job 1 fires while job 0 renders; then job 0 completes and releases its slot.
\<close>

definition leaked :: server where
  "leaked =
     run cfg_one [Post req_letter, Post req_letter, Post req_letter, SlotTimeout 1,
                  Settle 0 ok, Settle 0 ok, Settle 0 ok, Settle 0 ok,
                  Settle 0 ok, Settle 0 (Resolved ''%PDF''), Settle 0 ok] init"

section \<open>Properties\<close>

lemmas model_defs =
  init_def emit_def upd_job_def set_pc_def acquireSlot_def releaseSlot_def launch_def
  getBrowser_def getBrowser_closed_def getBrowser_launched_def cache_get_def cache_set_def
  getFontCSS_def
  getFontCSS_fetched_def getFontCSS_text_def respond_def got_browser_def render_start_def
  slot_resolved_def finally_release_def finally_block_def crash_class_def catch_tail_def
  catch_block_def crash_closed_def page_opened_def js_disabled_def set_content_def
  requested_font_def viewport_set_def font_fetched_def font_text_def content_set_def
  pdf_done_def unauthorized_def post_def slot_timeout_def settle_def step_def FONT_URLS_def
  Object_prototype_def native_function_def format_or_default_def pdf_format_def effects_of_def releases_def page_closes_def
  acquisitions_def held_def

lemmas scenario_defs =
  cfg_open_def cfg_one_def cfg_keyed_def req_letter_def at_set_content_def
  req_roboto_def roboto_url_def both_at_viewport_def one_fetching_def fetch_failed_def
  refetched_def both_fetching_def fetched_differently_def req_roboto_array_def
  array_at_viewport_def two_callers_def
  crashed_def served_def launch_failed_def page_closing_def leaked_def

text \<open>What the basic operations leave alone.\<close>

lemma emit_fields [simp]:
  "activeJobs (emit j e s) = activeJobs s"
  "waitQueue (emit j e s) = waitQueue s"
  "browser (emit j e s) = browser s"
  "fontCSSCache (emit j e s) = fontCSSCache s"
  "fontCSSCacheByObject (emit j e s) = fontCSSCacheByObject s"
  "browserConnected (emit j e s) = browserConnected s"
  "nextHandle (emit j e s) = nextHandle s"
  "nextJob (emit j e s) = nextJob s"
  "jobs (emit j e s) = jobs s"
  "trace (emit j e s) = trace s @ [(j, e)]"
  by (simp_all add: emit_def)

lemma upd_job_fields [simp]:
  "activeJobs (upd_job j f s) = activeJobs s"
  "waitQueue (upd_job j f s) = waitQueue s"
  "browser (upd_job j f s) = browser s"
  "fontCSSCache (upd_job j f s) = fontCSSCache s"
  "fontCSSCacheByObject (upd_job j f s) = fontCSSCacheByObject s"
  "browserConnected (upd_job j f s) = browserConnected s"
  "nextHandle (upd_job j f s) = nextHandle s"
  "nextJob (upd_job j f s) = nextJob s"
  "trace (upd_job j f s) = trace s"
  by (simp_all add: upd_job_def split: option.splits)

lemma upd_job_jobs:
  "jobs (upd_job j f s) i = (if i = j then map_option f (jobs s j) else jobs s i)"
  by (simp add: upd_job_def split: option.splits)

lemma set_pc_fields [simp]:
  "activeJobs (set_pc j p s) = activeJobs s"
  "waitQueue (set_pc j p s) = waitQueue s"
  "browser (set_pc j p s) = browser s"
  "fontCSSCache (set_pc j p s) = fontCSSCache s"
  "fontCSSCacheByObject (set_pc j p s) = fontCSSCacheByObject s"
  "browserConnected (set_pc j p s) = browserConnected s"
  "nextHandle (set_pc j p s) = nextHandle s"
  "nextJob (set_pc j p s) = nextJob s"
  "trace (set_pc j p s) = trace s"
  by (simp_all add: set_pc_def)

lemma set_pc_jobs:
  "jobs (set_pc j p s) i =
     (if i = j then map_option (\<lambda>jb. jb\<lparr>pc := p\<rparr>) (jobs s j) else jobs s i)"
  by (simp add: set_pc_def upd_job_jobs)

lemma cache_set_fields [simp]:
  "activeJobs (cache_set j v c s) = activeJobs s"
  "waitQueue (cache_set j v c s) = waitQueue s"
  "browser (cache_set j v c s) = browser s"
  "browserConnected (cache_set j v c s) = browserConnected s"
  "nextHandle (cache_set j v c s) = nextHandle s"
  "nextJob (cache_set j v c s) = nextJob s"
  "jobs (cache_set j v c s) = jobs s"
  "trace (cache_set j v c s) = trace s"
  by (simp_all add: cache_set_def split: jsval.splits)

lemma cache_set_string [simp]:
  "fontCSSCache (cache_set j (JStr k) c s) = (fontCSSCache s)(k \<mapsto> c)"
  "fontCSSCacheByObject (cache_set j (JStr k) c s) = fontCSSCacheByObject s"
  by (simp_all add: cache_set_def)

lemma cache_set_array [simp]:
  "fontCSSCache (cache_set j (JArr xs) c s) = fontCSSCache s"
  "fontCSSCacheByObject (cache_set j (JArr xs) c s) = fontCSSCacheByObject s @ [(j, c)]"
  by (simp_all add: cache_set_def)

lemma set_content_fields:
  "fontCSSCache (set_content j c s) = fontCSSCache s"
  "browser (set_content j c s) = browser s"
  "fontCSSCacheByObject (set_content j c s) = fontCSSCacheByObject s"
  by (simp_all add: set_content_def split: option.splits)

lemma set_content_trace:
  "jobs s j = Some jb \<Longrightarrow>
   trace (set_content j c s) =
     trace s @ [(j, SetContent c (if truthy (css (jreq jb)) then css (jreq jb) else JStr [])
                      (html (jreq jb)))]"
  by (simp add: set_content_def)

subsection \<open>Every job keeps its invariant\<close>

lemma effects_of_emit [simp]:
  "effects_of i (emit j e s) = (if i = j then effects_of i s @ [e] else effects_of i s)"
  by (simp add: effects_of_def emit_def)

lemma effects_of_upd_job [simp]: "effects_of i (upd_job j f s) = effects_of i s"
  by (simp add: effects_of_def)

lemma effects_of_set_pc [simp]: "effects_of i (set_pc j p s) = effects_of i s"
  by (simp add: effects_of_def)

lemma effects_of_fields [simp]:
  "effects_of i (s\<lparr>activeJobs := a\<rparr>) = effects_of i s"
  "effects_of i (s\<lparr>waitQueue := q\<rparr>) = effects_of i s"
  "effects_of i (s\<lparr>browser := b\<rparr>) = effects_of i s"
  "effects_of i (s\<lparr>fontCSSCache := m\<rparr>) = effects_of i s"
  "effects_of i (s\<lparr>fontCSSCacheByObject := os\<rparr>) = effects_of i s"
  "effects_of i (cache_set j' v c' s) = effects_of i s"
  "effects_of i (s\<lparr>browserConnected := c\<rparr>) = effects_of i s"
  "effects_of i (s\<lparr>nextHandle := h\<rparr>) = effects_of i s"
  "effects_of i (s\<lparr>nextJob := n\<rparr>) = effects_of i s"
  "effects_of i (s\<lparr>jobs := js\<rparr>) = effects_of i s"
  by (simp_all add: effects_of_def)

lemmas count_defs = acquisitions_def releases_def page_closes_def

lemma job_ok_cong:
  "jobs s' i = jobs s i \<Longrightarrow> effects_of i s' = effects_of i s \<Longrightarrow> job_ok i s' = job_ok i s"
  by (simp add: job_ok_def count_defs)

lemma job_ok_fields [simp]:
  "job_ok i (s\<lparr>activeJobs := a\<rparr>) = job_ok i s"
  "job_ok i (s\<lparr>waitQueue := q\<rparr>) = job_ok i s"
  "job_ok i (s\<lparr>browser := b\<rparr>) = job_ok i s"
  "job_ok i (s\<lparr>fontCSSCache := m\<rparr>) = job_ok i s"
  "job_ok i (s\<lparr>fontCSSCacheByObject := os\<rparr>) = job_ok i s"
  "job_ok i (cache_set j' v c' s) = job_ok i s"
  "job_ok i (s\<lparr>browserConnected := c\<rparr>) = job_ok i s"
  "job_ok i (s\<lparr>nextHandle := h\<rparr>) = job_ok i s"
  by (simp_all add: job_ok_def count_defs)

lemma job_ok_other [simp]:
  "i \<noteq> j \<Longrightarrow> job_ok i (emit j e s) = job_ok i s"
  "i \<noteq> j \<Longrightarrow> job_ok i (upd_job j f s) = job_ok i s"
  "i \<noteq> j \<Longrightarrow> job_ok i (set_pc j p s) = job_ok i s"
  by (simp_all add: job_ok_def count_defs upd_job_jobs set_pc_jobs)

lemma jobs_None_iff [simp]:
  "jobs (upd_job j f s) i = None \<longleftrightarrow> jobs s i = None"
  "jobs (set_pc j p s) i = None \<longleftrightarrow> jobs s i = None"
  by (simp_all add: upd_job_jobs set_pc_jobs)







lemma server_inv_fields [simp]:
  "server_inv (s\<lparr>activeJobs := a\<rparr>) = server_inv s"
  "server_inv (s\<lparr>waitQueue := q\<rparr>) = server_inv s"
  "server_inv (s\<lparr>browser := b\<rparr>) = server_inv s"
  "server_inv (s\<lparr>fontCSSCache := m\<rparr>) = server_inv s"
  "server_inv (s\<lparr>fontCSSCacheByObject := os\<rparr>) = server_inv s"
  "server_inv (cache_set j' v c' s) = server_inv s"
  "server_inv (s\<lparr>browserConnected := c\<rparr>) = server_inv s"
  "server_inv (s\<lparr>nextHandle := h\<rparr>) = server_inv s"
  by (simp_all add: server_inv_def)

lemma holding_fields [simp]:
  "holding j (s\<lparr>activeJobs := a\<rparr>) = holding j s"
  "holding j (s\<lparr>waitQueue := q\<rparr>) = holding j s"
  "holding j (s\<lparr>browser := b\<rparr>) = holding j s"
  by (simp_all add: holding_def count_defs)

text \<open>A job inside the try block that changes its own record only.\<close>

lemma holding_inv:
  "holding j s \<Longrightarrow> jobs s j = Some jb \<Longrightarrow>
   counts_ok (Some jb) 1 0 (page_closes j s) \<Longrightarrow> server_inv s"
  unfolding server_inv_def holding_def
  by (metis job_ok_def)



lemma holding_upd_job: "holding j s \<Longrightarrow> holding j (upd_job j f s)"
  by (simp add: holding_def count_defs upd_job_jobs)

lemma holding_set_pc: "holding j s \<Longrightarrow> holding j (set_pc j p s)"
  by (simp add: set_pc_def holding_upd_job)


lemma page_closes_simps [simp]:
  "page_closes i (emit j e s) = (if i = j \<and> e = PageClose then Suc (page_closes i s) else page_closes i s)"
  "page_closes i (upd_job j f s) = page_closes i s"
  "page_closes i (set_pc j p s) = page_closes i s"
  "page_closes i (respond j st s) = page_closes i s"
  "page_closes i (s\<lparr>browser := b\<rparr>) = page_closes i s"
  "page_closes i (s\<lparr>fontCSSCache := m\<rparr>) = page_closes i s"
  "page_closes i (s\<lparr>fontCSSCacheByObject := os\<rparr>) = page_closes i s"
  "page_closes i (cache_set j' v c' s) = page_closes i s"
  "page_closes i (s\<lparr>browserConnected := c\<rparr>) = page_closes i s"
  "page_closes i (s\<lparr>nextHandle := h\<rparr>) = page_closes i s"
  by (simp_all add: page_closes_def respond_def)

lemma acquisitions_simps [simp]:
  "acquisitions i (emit j e s) =
     (if i = j \<and> e = SlotAcquired then Suc (acquisitions i s) else acquisitions i s)"
  "acquisitions i (upd_job j f s) = acquisitions i s"
  "acquisitions i (set_pc j p s) = acquisitions i s"
  "acquisitions i (respond j st s) = acquisitions i s"
  "acquisitions i (s\<lparr>browser := b\<rparr>) = acquisitions i s"
  "acquisitions i (s\<lparr>fontCSSCache := m\<rparr>) = acquisitions i s"
  "acquisitions i (s\<lparr>fontCSSCacheByObject := os\<rparr>) = acquisitions i s"
  "acquisitions i (cache_set j' v c' s) = acquisitions i s"
  "acquisitions i (s\<lparr>browserConnected := c\<rparr>) = acquisitions i s"
  "acquisitions i (s\<lparr>nextHandle := h\<rparr>) = acquisitions i s"
  by (simp_all add: acquisitions_def respond_def)

lemma releases_simps [simp]:
  "releases i (emit j e s) =
     (if i = j \<and> e = ReleaseSlot then Suc (releases i s) else releases i s)"
  "releases i (upd_job j f s) = releases i s"
  "releases i (set_pc j p s) = releases i s"
  "releases i (respond j st s) = releases i s"
  "releases i (s\<lparr>browser := b\<rparr>) = releases i s"
  "releases i (s\<lparr>fontCSSCache := m\<rparr>) = releases i s"
  "releases i (s\<lparr>fontCSSCacheByObject := os\<rparr>) = releases i s"
  "releases i (cache_set j' v c' s) = releases i s"
  "releases i (s\<lparr>browserConnected := c\<rparr>) = releases i s"
  "releases i (s\<lparr>nextHandle := h\<rparr>) = releases i s"
  by (simp_all add: releases_def respond_def)


























subsection \<open>What the catch and finally blocks do\<close>

lemma settle_rejected:
  "jobs s j = Some jb \<Longrightarrow> throws_to_catch (pc jb) \<Longrightarrow>
   settle cfg j (Rejected e) s = catch_block j e s"
  by (cases "pc jb") (simp_all add: settle_def getBrowser_launched_def)

lemma render_start_browser [simp]: "browser (render_start w s) = browser s"
  by (simp add: render_start_def getBrowser_def launch_def got_browser_def split: option.splits)

lemma render_start_effects_other [simp]:
  "j \<noteq> w \<Longrightarrow> effects_of j (render_start w s) = effects_of j s"
  by (simp add: render_start_def getBrowser_def launch_def got_browser_def split: option.splits)

lemma slot_resolved_browser [simp]: "browser (slot_resolved w s) = browser s"
  by (simp add: slot_resolved_def split: option.splits)

lemma slot_resolved_effects:
  "jobs s j = Some jb \<Longrightarrow> pc jb \<noteq> AwaitSlot \<Longrightarrow>
   effects_of j (slot_resolved w s) = effects_of j s"
  by (cases "w = j") (auto simp add: slot_resolved_def split: option.splits)

lemma slot_resolved_pc:
  "jobs s j = Some jb \<Longrightarrow> pc jb \<noteq> AwaitSlot \<Longrightarrow> jobs (slot_resolved w s) j = Some jb"
  by (cases "w = j")
    (auto simp add: slot_resolved_def render_start_def getBrowser_def launch_def got_browser_def
      set_pc_jobs split: option.splits)

lemma finally_release_summary:
  assumes "jobs s j = Some jb"
  shows "effects_of j (finally_release j s) = effects_of j s @ [ReleaseSlot]"
    and "browser (finally_release j s) = browser s"
    and "jobs (finally_release j s) j = Some (jb\<lparr>pc := Finished\<rparr>)"
proof -
  have j: "jobs (set_pc j Finished s') j = Some (jb\<lparr>pc := Finished\<rparr>)"
    if "jobs s' j = Some jb" for s'
    using that by (simp add: set_pc_jobs)
  show "effects_of j (finally_release j s) = effects_of j s @ [ReleaseSlot]"
    using assms
    by (simp add: finally_release_def releaseSlot_def
        slot_resolved_effects [OF j] split: list.splits)
  show "browser (finally_release j s) = browser s"
    by (simp add: finally_release_def releaseSlot_def split: list.splits)
  show "jobs (finally_release j s) j = Some (jb\<lparr>pc := Finished\<rparr>)"
    using assms
    by (simp add: finally_release_def releaseSlot_def j
        slot_resolved_pc [OF j] split: list.splits)
qed

lemma finally_block_summary:
  assumes "jobs s j = Some jb"
  shows "effects_of j (finally_block j s) =
           effects_of j s @ (if page jb then [PageClose] else [ReleaseSlot])"
    and "browser (finally_block j s) = browser s"
    and "map_option pc (jobs (finally_block j s) j) =
           Some (if page jb then AwaitPageClose else Finished)"
  using assms finally_release_summary [OF assms]
  by (simp_all add: finally_block_def set_pc_jobs)

lemma catch_tail_summary:
  assumes "jobs s j = Some jb" and "responded jb = None"
  shows "effects_of j (catch_tail j s) =
           effects_of j s @ Respond 500 # (if page jb then [PageClose] else [ReleaseSlot])"
    and "browser (catch_tail j s) = browser s"
    and "map_option pc (jobs (catch_tail j s) j) =
           Some (if page jb then AwaitPageClose else Finished)"
proof -
  have j: "jobs (respond j 500 s) j = Some (jb\<lparr>responded := Some 500\<rparr>)"
    using assms(1) by (simp add: respond_def upd_job_jobs)
  have e: "effects_of j (respond j 500 s) = effects_of j s @ [Respond 500]"
    by (simp add: respond_def)
  have b: "browser (respond j 500 s) = browser s" by (simp add: respond_def)
  show "effects_of j (catch_tail j s) =
           effects_of j s @ Respond 500 # (if page jb then [PageClose] else [ReleaseSlot])"
    using assms finally_block_summary(1) [OF j] e by (simp add: catch_tail_def)
  show "browser (catch_tail j s) = browser s"
    using assms finally_block_summary(2) [OF j] b by (simp add: catch_tail_def)
  show "map_option pc (jobs (catch_tail j s) j) =
           Some (if page jb then AwaitPageClose else Finished)"
    using assms finally_block_summary(3) [OF j] by (simp add: catch_tail_def)
qed

subsection \<open>Every job that is admitted returns\<close>








text \<open>A job that is past the race acquires no further slot.\<close>

lemma past_race_simps [simp]:
  "past_race j (emit i e s) = past_race j s"
  "past_race j (s\<lparr>browser := b\<rparr>) = past_race j s"
  "past_race j (s\<lparr>waitQueue := q\<rparr>) = past_race j s"
  "past_race j (s\<lparr>activeJobs := a\<rparr>) = past_race j s"
  "past_race j (s\<lparr>fontCSSCache := m\<rparr>) = past_race j s"
  "past_race j (s\<lparr>fontCSSCacheByObject := os\<rparr>) = past_race j s"
  "past_race j (cache_set j' v c' s) = past_race j s"
  "past_race j (s\<lparr>browserConnected := c\<rparr>) = past_race j s"
  "past_race j (s\<lparr>nextHandle := h\<rparr>) = past_race j s"
  "past_race j (respond i st s) = past_race j s"
  "past_race j (upd_job i (\<lambda>jb. jb\<lparr>page := g\<rparr>) s) = past_race j s"
  "past_race j (upd_job i (\<lambda>jb. jb\<lparr>fontCSS := c'\<rparr>) s) = past_race j s"
  by (auto simp add: past_race_def respond_def upd_job_jobs split: if_splits)

lemma past_race_set_pc [simp]:
  "past_race j s \<Longrightarrow> p \<noteq> AwaitSlot \<Longrightarrow> past_race j (set_pc i p s)"
  by (auto simp add: past_race_def set_pc_jobs)

lemma acquisitions_fields [simp]:
  "acquisitions i (s\<lparr>waitQueue := q\<rparr>) = acquisitions i s"
  "acquisitions i (s\<lparr>activeJobs := a\<rparr>) = acquisitions i s"
  by (simp_all add: acquisitions_def)










subsection \<open>The count of active jobs\<close>

lemma render_start_activeJobs [simp]: "activeJobs (render_start w s) = activeJobs s"
  by (simp add: render_start_def getBrowser_def launch_def got_browser_def split: option.splits)

lemma slot_resolved_activeJobs [simp]: "activeJobs (slot_resolved w s) = activeJobs s"
  by (simp add: slot_resolved_def split: option.splits)

lemma finally_release_activeJobs: "activeJobs (finally_release j s) \<le> activeJobs s"
  by (simp add: finally_release_def releaseSlot_def split: list.splits)

lemma finally_block_activeJobs: "activeJobs (finally_block j s) \<le> activeJobs s"
  using finally_release_activeJobs [of j s]
  by (simp add: finally_block_def split: option.splits)

lemma catch_tail_activeJobs: "activeJobs (catch_tail j s) \<le> activeJobs s"
  using finally_block_activeJobs [of j s] finally_block_activeJobs [of j "respond j 500 s"]
  by (simp add: catch_tail_def respond_def split: option.splits)

lemma catch_block_activeJobs: "activeJobs (catch_block j e s) \<le> activeJobs s"
  using catch_tail_activeJobs [of j s] catch_tail_activeJobs [of j "s\<lparr>browser := None\<rparr>"]
  by (simp add: catch_block_def split: option.splits)

lemma settle_activeJobs: "activeJobs (settle cfg j out s) \<le> activeJobs s"
proof (cases "jobs s j")
  case None
  then show ?thesis by (simp add: settle_def)
next
  case (Some jb)
  show ?thesis
    using Some catch_block_activeJobs [of j _ s] finally_release_activeJobs [of j s]
      catch_tail_activeJobs [of j "s\<lparr>browser := None\<rparr>"]
      finally_block_activeJobs [of j "respond j 200 s"]
    by (cases "pc jb"; cases out)
      (simp_all add: settle_def getBrowser_closed_def getBrowser_launched_def launch_def
        got_browser_def page_opened_def js_disabled_def viewport_set_def getFontCSS_def
        set_content_def font_fetched_def getFontCSS_fetched_def font_text_def
        getFontCSS_text_def content_set_def pdf_done_def crash_closed_def respond_def
        Let_def split: option.splits)
qed

lemma step_activeJobs:
  "activeJobs s \<le> MAX_CONCURRENT cfg \<Longrightarrow> activeJobs (step cfg ev s) \<le> MAX_CONCURRENT cfg"
proof (cases ev)
  case (Post r)
  then show "activeJobs s \<le> MAX_CONCURRENT cfg \<Longrightarrow> ?thesis"
    by (simp add: step_def post_def acquireSlot_def respond_def Let_def)
next
  case (Settle j out)
  with settle_activeJobs [of cfg j out s]
  show "activeJobs s \<le> MAX_CONCURRENT cfg \<Longrightarrow> ?thesis" by (simp add: step_def)
next
  case (SlotTimeout j)
  then show "activeJobs s \<le> MAX_CONCURRENT cfg \<Longrightarrow> ?thesis"
    by (simp add: step_def slot_timeout_def respond_def split: option.splits)
next
  case (Disconnected h)
  then show "activeJobs s \<le> MAX_CONCURRENT cfg \<Longrightarrow> ?thesis" by (simp add: step_def)
qed

lemma run_activeJobs:
  "activeJobs s \<le> MAX_CONCURRENT cfg \<Longrightarrow> activeJobs (run cfg evs s) \<le> MAX_CONCURRENT cfg"
  by (induction evs arbitrary: s) (simp_all add: step_activeJobs)


text \<open>The slots held never exceed the count.\<close>

lemma held_simps [simp]:
  "held (emit j e s) =
     held s + (if e = SlotAcquired then 1 else if e = ReleaseSlot then - 1 else 0)"
  "held (upd_job j f s) = held s"
  "held (set_pc j p s) = held s"
  "held (respond j st s) = held s"
  "held (s\<lparr>activeJobs := a\<rparr>) = held s"
  "held (s\<lparr>waitQueue := q\<rparr>) = held s"
  "held (s\<lparr>browser := b\<rparr>) = held s"
  "held (s\<lparr>fontCSSCache := m\<rparr>) = held s"
  "held (s\<lparr>fontCSSCacheByObject := os\<rparr>) = held s"
  "held (cache_set j' v c' s) = held s"
  "held (s\<lparr>browserConnected := c\<rparr>) = held s"
  "held (s\<lparr>nextHandle := h\<rparr>) = held s"
  "held (s\<lparr>nextJob := n\<rparr>) = held s"
  "held (s\<lparr>jobs := js\<rparr>) = held s"
  by (simp_all add: held_def emit_def respond_def)

lemma respond_activeJobs: "activeJobs (respond j st s) = activeJobs s"
  by (simp add: respond_def)

lemma render_start_held [simp]: "held (render_start w s) = held s + 1"
  by (simp add: render_start_def getBrowser_def launch_def got_browser_def split: option.splits)

lemma slot_resolved_held: "held (slot_resolved w s) \<le> held s + 1"
  by (simp add: slot_resolved_def split: option.splits)

lemma finally_release_held:
  "held (finally_release j s) - activeJobs (finally_release j s) \<le> held s - activeJobs s"
proof (cases "waitQueue s")
  case Nil
  then show ?thesis by (simp add: finally_release_def releaseSlot_def)
next
  case (Cons w rest)
  have "held (slot_resolved w (set_pc j Finished ((emit j ReleaseSlot s)\<lparr>waitQueue := rest\<rparr>)))
      \<le> held (set_pc j Finished ((emit j ReleaseSlot s)\<lparr>waitQueue := rest\<rparr>)) + 1"
    by (rule slot_resolved_held)
  with Cons show ?thesis by (simp add: finally_release_def releaseSlot_def)
qed

lemma finally_block_held:
  "held (finally_block j s) - activeJobs (finally_block j s) \<le> held s - activeJobs s"
  using finally_release_held [of j s]
  by (simp add: finally_block_def split: option.splits)

lemma catch_tail_held:
  "held (catch_tail j s) - activeJobs (catch_tail j s) \<le> held s - activeJobs s"
  using finally_block_held [of j s] finally_block_held [of j "respond j 500 s"]
  by (simp add: catch_tail_def split: option.splits) (simp add: respond_def)

lemma catch_block_held:
  "held (catch_block j e s) - activeJobs (catch_block j e s) \<le> held s - activeJobs s"
  using catch_tail_held [of j s] catch_tail_held [of j "s\<lparr>browser := None\<rparr>"]
  by (simp add: catch_block_def split: option.splits)

lemma settle_held:
  "held (settle cfg j out s) - activeJobs (settle cfg j out s) \<le> held s - activeJobs s"
proof (cases "jobs s j")
  case None
  then show ?thesis by (simp add: settle_def)
next
  case (Some jb)
  have pd: "held (pdf_done j s) - activeJobs (pdf_done j s) \<le> held s - activeJobs s"
    using finally_block_held [of j "respond j 200 s"] by (simp add: pdf_done_def respond_def)
  have cc: "held (crash_closed j s) - activeJobs (crash_closed j s) \<le> held s - activeJobs s"
    using catch_tail_held [of j "s\<lparr>browser := None\<rparr>"] by (simp add: crash_closed_def)
  show ?thesis
    using Some catch_block_held [of j _ s] finally_release_held [of j s] pd cc
    by (cases "pc jb"; cases out)
      (simp_all add: settle_def getBrowser_closed_def getBrowser_launched_def launch_def
        got_browser_def page_opened_def js_disabled_def viewport_set_def getFontCSS_def
        set_content_def font_fetched_def getFontCSS_fetched_def font_text_def
        getFontCSS_text_def content_set_def Let_def split: option.splits)
qed

lemma step_held: "held s \<le> activeJobs s \<Longrightarrow> held (step cfg ev s) \<le> activeJobs (step cfg ev s)"
proof (cases ev)
  case (Post r)
  then show "held s \<le> activeJobs s \<Longrightarrow> ?thesis"
    by (simp add: step_def post_def acquireSlot_def Let_def respond_activeJobs)
next
  case (Settle j out)
  with settle_held [of cfg j out s]
  show "held s \<le> activeJobs s \<Longrightarrow> ?thesis" by (simp add: step_def)
next
  case (SlotTimeout j)
  then show "held s \<le> activeJobs s \<Longrightarrow> ?thesis"
    by (simp add: step_def slot_timeout_def respond_activeJobs split: option.splits)
next
  case (Disconnected h)
  then show "held s \<le> activeJobs s \<Longrightarrow> ?thesis" by (simp add: step_def)
qed

lemma run_held: "held s \<le> activeJobs s \<Longrightarrow> held (run cfg evs s) \<le> activeJobs (run cfg evs s)"
  by (induction evs arbitrary: s) (simp_all add: step_held)

lemma held_init: "held init = 0" "activeJobs init = 0"
  by (simp_all add: held_def init_def)

subsection \<open>The effect of a job's steps on the slots\<close>

lemma releases_fields [simp]:
  "releases i (s\<lparr>waitQueue := q\<rparr>) = releases i s"
  "releases i (s\<lparr>activeJobs := a\<rparr>) = releases i s"
  by (simp_all add: releases_def)

lemma render_start_waitQueue [simp]: "waitQueue (render_start w s) = waitQueue s"
  by (simp add: render_start_def getBrowser_def launch_def got_browser_def split: option.splits)

lemma slot_resolved_waitQueue [simp]: "waitQueue (slot_resolved w s) = waitQueue s"
  by (simp add: slot_resolved_def split: option.splits)

lemma render_start_nextJob [simp]: "nextJob (render_start w s) = nextJob s"
  by (simp add: render_start_def getBrowser_def launch_def got_browser_def split: option.splits)

lemma slot_resolved_nextJob [simp]: "nextJob (slot_resolved w s) = nextJob s"
  by (simp add: slot_resolved_def split: option.splits)

lemma render_start_jobs_other: "i \<noteq> w \<Longrightarrow> jobs (render_start w s) i = jobs s i"
  by (simp add: render_start_def getBrowser_def launch_def got_browser_def set_pc_jobs
      split: option.splits)

lemma slot_resolved_jobs_other: "i \<noteq> w \<Longrightarrow> jobs (slot_resolved w s) i = jobs s i"
  by (simp add: slot_resolved_def render_start_jobs_other split: option.splits)



lemma render_start_releases [simp]: "releases i (render_start w s) = releases i s"
  by (simp add: render_start_def getBrowser_def launch_def got_browser_def split: option.splits)

lemma slot_resolved_releases [simp]: "releases i (slot_resolved w s) = releases i s"
  by (simp add: slot_resolved_def split: option.splits)




lemma slot_kept_refl: "slot_kept j s s"
  by (simp add: slot_kept_def)























subsection \<open>The count of active jobs is exact while no timer fires\<close>








subsection \<open>The page format\<close>

text \<open>
  C10. The format handed to \<^verbatim>\<open>page.pdf\<close> is \<^verbatim>\<open>letter\<close> exactly when the
  \<^verbatim>\<open>format\<close> field of the request is the string \<^verbatim>\<open>Letter\<close>, and \<^verbatim>\<open>a4\<close> for
  every other value of the field, absent, of another type or another string; whatever the
  field holds, the job goes on to await the PDF, so no error is raised for it.
\<close>

theorem page_format_letter_iff_Letter:
  assumes "jobs s j = Some jb" and "pc jb = AwaitSetContent"
  shows "trace (step cfg (Settle j (Resolved v)) s) =
           trace s @ [(j, PagePdf (if format (jreq jb) = JStr ''Letter'' then ''letter'' else ''a4''))]
       \<and> map_option pc (jobs (step cfg (Settle j (Resolved v)) s) j) = Some AwaitPdf
       \<and> (pdf_format r = ''letter'') = (format r = JStr ''Letter'')
       \<and> (pdf_format r = ''a4'') = (format r \<noteq> JStr ''Letter'')"
  using assms
  by (simp add: step_def settle_def content_set_def set_pc_def upd_job_def emit_def
      pdf_format_def format_or_default_def)

theorem page_format_letter_iff_Letter_witness:
  "map_option pc (jobs at_set_content 0) = Some AwaitSetContent
   \<and> trace (step cfg_open (Settle 0 ok) at_set_content) =
       trace at_set_content @ [(0, PagePdf ''letter'')]"
proof -
  have j: "jobs at_set_content 0 =
      Some \<lparr>jreq = req_letter, pc = AwaitSetContent, page = True, fontCSS = [], responded = None\<rparr>"
    by (simp add: model_defs scenario_defs Let_def)
  from page_format_letter_iff_Letter [OF j, of cfg_open "[]"] j show ?thesis
    by (simp add: req_letter_def)
qed

lemma pdf_format_examples:
  "pdf_format (r\<lparr>format := JUndefined\<rparr>) = ''a4''"
  "pdf_format (r\<lparr>format := JStr ''letter''\<rparr>) = ''a4''"
  "pdf_format (r\<lparr>format := JStr ''A3''\<rparr>) = ''a4''"
  "pdf_format (r\<lparr>format := JNull\<rparr>) = ''a4''"
  "pdf_format (r\<lparr>format := JStr ''Letter''\<rparr>) = ''letter''"
  by (simp_all add: pdf_format_def format_or_default_def)

subsection \<open>Rejection before admission\<close>

text \<open>
  C9. A request that is unauthorized (a key is configured and the header is absent or
  differs) or has no content is answered 401 or 400 at once: the state after the request
  differs from the state before only in the record of the finished job and in the answer
  written to the trace. The slot count, the wait queue, the browser and the font cache are
  as they were, and no external call was made.
\<close>

theorem rejected_before_any_resource:
  assumes "unauthorized cfg req \<or> \<not> truthy (html req)"
  shows "step cfg (Post req) s =
           s\<lparr>nextJob := Suc (nextJob s),
             jobs := (jobs s)(nextJob s \<mapsto>
                \<lparr>jreq = req, pc = Finished, page = False, fontCSS = [],
                 responded = Some (if unauthorized cfg req then 401 else 400)\<rparr>),
             trace := trace s @ [(nextJob s, Respond (if unauthorized cfg req then 401 else 400))]\<rparr>"
  using assms
  by (auto simp add: step_def post_def respond_def emit_def upd_job_def Let_def)

theorem rejected_before_any_resource_witness:
  "unauthorized cfg_keyed req_letter
   \<and> activeJobs (step cfg_keyed (Post req_letter) at_set_content) = activeJobs at_set_content
   \<and> waitQueue (step cfg_keyed (Post req_letter) at_set_content) = waitQueue at_set_content
   \<and> browser (step cfg_keyed (Post req_letter) at_set_content) = browser at_set_content
   \<and> trace (step cfg_keyed (Post req_letter) at_set_content) =
       trace at_set_content @ [(1, Respond 401)]
   \<and> \<not> truthy (html (req_letter\<lparr>html := JStr []\<rparr>))
   \<and> trace (step cfg_open (Post (req_letter\<lparr>html := JStr []\<rparr>)) at_set_content) =
       trace at_set_content @ [(1, Respond 400)]"
proof -
  have u: "unauthorized cfg_keyed req_letter"
    by (simp add: unauthorized_def cfg_keyed_def req_letter_def)
  have e: "\<not> truthy (html (req_letter\<lparr>html := JStr []\<rparr>))" by simp
  have nu: "\<not> unauthorized cfg_open (req_letter\<lparr>html := JStr []\<rparr>)"
    by (simp add: unauthorized_def cfg_open_def)
  have n: "nextJob at_set_content = 1"
    by (simp add: model_defs scenario_defs Let_def)
  from rejected_before_any_resource [of cfg_keyed req_letter at_set_content] u n
  have a: "activeJobs (step cfg_keyed (Post req_letter) at_set_content) = activeJobs at_set_content
   \<and> waitQueue (step cfg_keyed (Post req_letter) at_set_content) = waitQueue at_set_content
   \<and> browser (step cfg_keyed (Post req_letter) at_set_content) = browser at_set_content
   \<and> trace (step cfg_keyed (Post req_letter) at_set_content) =
       trace at_set_content @ [(1, Respond 401)]"
    by simp
  from rejected_before_any_resource [of cfg_open "req_letter\<lparr>html := JStr []\<rparr>" at_set_content]
    e nu n
  have b: "trace (step cfg_open (Post (req_letter\<lparr>html := JStr []\<rparr>)) at_set_content) =
       trace at_set_content @ [(1, Respond 400)]"
    by simp
  from u a e b show ?thesis by blast
qed

subsection \<open>The admission bound\<close>

lemma outstanding_append: "outstanding (xs @ ys) = outstanding xs + outstanding ys"
  by (simp add: outstanding_def)

lemma adm_step_outstanding:
  "adm_step cfg op s = (evs, s') \<Longrightarrow> outstanding evs = activeJobs s' - activeJobs s"
  by (cases op)
    (auto simp: acquireSlot_def releaseSlot_def outstanding_def split: if_splits list.splits)

lemma adm_step_bound:
  "adm_step cfg op s = (evs, s') \<Longrightarrow> activeJobs s \<le> MAX_CONCURRENT cfg
     \<Longrightarrow> activeJobs s' \<le> MAX_CONCURRENT cfg"
  by (cases op) (auto simp: acquireSlot_def releaseSlot_def split: if_splits list.splits)

lemma adm_run_outstanding:
  "adm_run cfg ops s = (evs, s') \<Longrightarrow> outstanding evs = activeJobs s' - activeJobs s"
proof (induction ops arbitrary: s evs s')
  case Nil
  then show ?case by (simp add: outstanding_def)
next
  case (Cons op ops)
  obtain e1 s1 where st: "adm_step cfg op s = (e1, s1)" by (cases "adm_step cfg op s")
  obtain e2 s2 where rn: "adm_run cfg ops s1 = (e2, s2)" by (cases "adm_run cfg ops s1")
  from Cons.prems st rn have "evs = e1 @ e2" "s' = s2" by simp_all
  with adm_step_outstanding [OF st] Cons.IH [OF rn] show ?case
    by (simp add: outstanding_append)
qed

lemma adm_run_bound:
  "adm_run cfg ops s = (evs, s') \<Longrightarrow> activeJobs s \<le> MAX_CONCURRENT cfg
     \<Longrightarrow> activeJobs s' \<le> MAX_CONCURRENT cfg"
proof (induction ops arbitrary: s evs s')
  case Nil
  then show ?case by simp
next
  case (Cons op ops)
  obtain e1 s1 where st: "adm_step cfg op s = (e1, s1)" by (cases "adm_step cfg op s")
  obtain e2 s2 where rn: "adm_run cfg ops s1 = (e2, s2)" by (cases "adm_run cfg ops s1")
  from Cons.prems st rn have "s' = s2" by simp
  with adm_step_bound [OF st Cons.prems(2)] Cons.IH [OF rn] show ?case by simp
qed

text \<open>
  C2. With a capacity that is not negative, after every sequence of acquire and release
  operations from the initial state, and so at every moment of one (after its first \<open>k\<close>
  operations), the slots granted and not yet released are \<^verbatim>\<open>activeJobs\<close> many and at
  most \<^verbatim>\<open>MAX_CONCURRENT\<close>. An acquire grants at once, counting the job in, exactly when
  \<^verbatim>\<open>activeJobs\<close> is below the capacity; otherwise it appends the caller to the queue.
  In the server itself, after every schedule of events, the slots that jobs have acquired
  and not yet released are at most \<^verbatim>\<open>activeJobs\<close>, which is at most the capacity.
\<close>

theorem slots_never_exceed_capacity:
  assumes "0 \<le> MAX_CONCURRENT cfg"
  shows "outstanding (fst (adm_run cfg (take k ops) init)) \<le> MAX_CONCURRENT cfg
       \<and> outstanding (fst (adm_run cfg (take k ops) init)) =
           activeJobs (snd (adm_run cfg (take k ops) init))
       \<and> adm_step cfg (Acquire j) s =
           (if activeJobs s < MAX_CONCURRENT cfg
            then ([Granted j], s\<lparr>activeJobs := activeJobs s + 1\<rparr>)
            else ([], s\<lparr>waitQueue := waitQueue s @ [j]\<rparr>))
       \<and> held (run cfg evs init) \<le> activeJobs (run cfg evs init)
       \<and> activeJobs (run cfg evs init) \<le> MAX_CONCURRENT cfg"
proof -
  obtain es s' where r: "adm_run cfg (take k ops) init = (es, s')"
    by (cases "adm_run cfg (take k ops) init")
  have a0: "activeJobs init = 0" by (simp add: init_def)
  from adm_run_outstanding [OF r] a0 have o: "outstanding es = activeJobs s'" by simp
  from adm_run_bound [OF r] a0 assms have b: "activeJobs s' \<le> MAX_CONCURRENT cfg" by simp
  have h: "held (run cfg evs init) \<le> activeJobs (run cfg evs init)"
    by (rule run_held) (simp add: held_init)
  have c: "activeJobs (run cfg evs init) \<le> MAX_CONCURRENT cfg"
    by (rule run_activeJobs) (simp add: a0 assms)
  from o b r h c show ?thesis by (simp add: acquireSlot_def)
qed

theorem slots_never_exceed_capacity_witness:
  "0 \<le> MAX_CONCURRENT cfg_one
   \<and> outstanding (fst (adm_run cfg_one (take 3 [Acquire 0, Acquire 1, Release, Release]) init))
       \<le> MAX_CONCURRENT cfg_one
   \<and> activeJobs (snd (adm_run cfg_one (take 3 [Acquire 0, Acquire 1, Release, Release]) init)) = 1
   \<and> fst (adm_run cfg_one [Acquire 0, Acquire 1, Release, Release] init) =
       [Granted 0, Released, Granted 1, Released]"
proof -
  have c: "0 \<le> MAX_CONCURRENT cfg_one" by (simp add: cfg_one_def)
  note w = slots_never_exceed_capacity
    [OF c, of 3 "[Acquire 0, Acquire 1, Release, Release]" 0 init "[]"]
  have b: "outstanding (fst (adm_run cfg_one (take 3 [Acquire 0, Acquire 1, Release, Release]) init))
       \<le> MAX_CONCURRENT cfg_one"
    by (rule conjunct1 [OF w])
  have a: "activeJobs (snd (adm_run cfg_one (take 3 [Acquire 0, Acquire 1, Release, Release]) init)) = 1"
    by (simp add: acquireSlot_def releaseSlot_def init_def cfg_one_def)
  have t: "fst (adm_run cfg_one [Acquire 0, Acquire 1, Release, Release] init) =
       [Granted 0, Released, Granted 1, Released]"
    by (simp add: acquireSlot_def releaseSlot_def init_def cfg_one_def)
  show ?thesis by (rule conjI [OF c conjI [OF b conjI [OF a t]]])
qed

subsection \<open>First come, first served\<close>

lemma adm_inv_init: "adm_inv cfg init"
  by (simp add: adm_inv_def init_def)

lemma adm_inv_step: "adm_step cfg op s = (evs, s') \<Longrightarrow> adm_inv cfg s \<Longrightarrow> adm_inv cfg s'"
  by (cases op)
    (auto simp: adm_inv_def acquireSlot_def releaseSlot_def split: if_splits list.splits)

lemma adm_inv_run: "adm_run cfg ops s = (evs, s') \<Longrightarrow> adm_inv cfg s \<Longrightarrow> adm_inv cfg s'"
proof (induction ops arbitrary: s evs s')
  case Nil
  then show ?case by simp
next
  case (Cons op ops)
  obtain e1 s1 where st: "adm_step cfg op s = (e1, s1)" by (cases "adm_step cfg op s")
  obtain e2 s2 where rn: "adm_run cfg ops s1 = (e2, s2)" by (cases "adm_run cfg ops s1")
  from Cons.prems st rn have "s' = s2" by simp
  with adm_inv_step [OF st Cons.prems(2)] Cons.IH [OF rn] show ?case by simp
qed

text \<open>While a ticket waits the queue is not empty, so nothing is granted at once: every
  grant is a transfer to the head of the queue.\<close>

lemma fifo_from:
  "adm_inv cfg s \<Longrightarrow> waitQueue s = pre @ A # rest \<Longrightarrow> B \<notin> set pre \<Longrightarrow> B \<noteq> A
   \<Longrightarrow> adm_run cfg ops s = (evs, s') \<Longrightarrow> Granted B \<in> set evs
   \<Longrightarrow> \<exists>e1 e2. evs = e1 @ Granted A # e2 \<and> Granted B \<notin> set e1"
proof (induction ops arbitrary: s pre rest evs s')
  case Nil
  then show ?case by simp
next
  case (Cons op ops)
  note inv = Cons.prems(1) and q = Cons.prems(2) and Bpre = Cons.prems(3)
    and BA = Cons.prems(4) and rnall = Cons.prems(5) and Bin = Cons.prems(6)
  obtain e1 s1 where st: "adm_step cfg op s = (e1, s1)" by (cases "adm_step cfg op s")
  obtain e2 s2 where rn: "adm_run cfg ops s1 = (e2, s2)" by (cases "adm_run cfg ops s1")
  from rnall st rn have evs: "evs = e1 @ e2" by simp
  have inv1: "adm_inv cfg s1" by (rule adm_inv_step [OF st inv])
  show ?case
  proof (cases op)
    case (Acquire j)
    from inv q have full: "\<not> activeJobs s < MAX_CONCURRENT cfg"
      by (simp add: adm_inv_def)
    with st Acquire q have e1: "e1 = []" and q1: "waitQueue s1 = pre @ A # (rest @ [j])"
      by (auto simp: acquireSlot_def)
    from Bin evs e1 have "Granted B \<in> set e2" by simp
    from Cons.IH [OF inv1 q1 Bpre BA rn this] evs e1 show ?thesis by simp
  next
    case Release
    show ?thesis
    proof (cases pre)
      case Nil
      with st Release q have "e1 = [Released, Granted A]"
        by (auto simp: releaseSlot_def)
      with evs have "evs = [Released] @ Granted A # e2 \<and> Granted B \<notin> set [Released]" by simp
      then show ?thesis by blast
    next
      case (Cons p pre')
      note pre = this
      from pre st Release q have e1: "e1 = [Released, Granted p]"
        and q1: "waitQueue s1 = pre' @ A # rest"
        by (auto simp: releaseSlot_def)
      from pre Bpre have pB: "p \<noteq> B" and B': "B \<notin> set pre'" by auto
      from Bin evs e1 pB have "Granted B \<in> set e2" by auto
      from \<open>\<And>s pre rest evs s'. adm_inv cfg s \<Longrightarrow> waitQueue s = pre @ A # rest \<Longrightarrow> B \<notin> set pre
          \<Longrightarrow> B \<noteq> A \<Longrightarrow> adm_run cfg ops s = (evs, s') \<Longrightarrow> Granted B \<in> set evs
          \<Longrightarrow> \<exists>e1 e2. evs = e1 @ Granted A # e2 \<and> Granted B \<notin> set e1\<close>
        [OF inv1 q1 B' BA rn this]
      obtain f1 f2 where "e2 = f1 @ Granted A # f2" "Granted B \<notin> set f1" by blast
      with evs e1 pB have "evs = ([Released, Granted p] @ f1) @ Granted A # f2
          \<and> Granted B \<notin> set ([Released, Granted p] @ f1)" by auto
      then show ?thesis by blast
    qed
  qed
qed

text \<open>
  C4. In a state reached by acquire and release operations, let ticket \<open>A\<close> wait in the
  queue with ticket \<open>B\<close> not before it (\<open>B\<close> is behind \<open>A\<close> in the queue, or is enqueued
  later). Then in every continuation in which \<open>B\<close> is granted a slot, \<open>A\<close> is granted one
  and no grant to \<open>B\<close> comes before it. A release hands the slot to the head of a
  non-empty queue, which is the oldest ticket, and leaves the count unchanged; it
  decrements the count when the queue is empty.
\<close>

theorem fifo_admission:
  assumes "adm_run cfg ops0 init = (evs0, s)"
      and "waitQueue s = pre @ A # rest" and "B \<notin> set pre" and "B \<noteq> A"
      and "adm_run cfg ops s = (evs, s')" and "Granted B \<in> set evs"
  shows "(\<exists>e1 e2. evs = e1 @ Granted A # e2 \<and> Granted B \<notin> set e1)
       \<and> (waitQueue t = [] \<longrightarrow>
            adm_step cfg Release t = ([Released], t\<lparr>activeJobs := activeJobs t - 1\<rparr>))
       \<and> (waitQueue t \<noteq> [] \<longrightarrow>
            adm_step cfg Release t =
              ([Released, Granted (hd (waitQueue t))], t\<lparr>waitQueue := tl (waitQueue t)\<rparr>))"
proof -
  have inv: "adm_inv cfg s" by (rule adm_inv_run [OF assms(1) adm_inv_init])
  from fifo_from [OF inv assms(2-6)] show ?thesis
    by (auto simp: releaseSlot_def split: list.splits)
qed

theorem fifo_admission_witness:
  "waitQueue (snd (adm_run cfg_one [Acquire 0, Acquire 1, Acquire 2] init)) = [] @ 1 # [2]
   \<and> fst (adm_run cfg_one [Release, Acquire 3, Release]
            (snd (adm_run cfg_one [Acquire 0, Acquire 1, Acquire 2] init))) =
       [Released, Granted 1, Released, Granted 2]
   \<and> (\<exists>e1 e2. fst (adm_run cfg_one [Release, Acquire 3, Release]
                   (snd (adm_run cfg_one [Acquire 0, Acquire 1, Acquire 2] init))) =
               e1 @ Granted 1 # e2 \<and> Granted 2 \<notin> set e1)"
proof -
  let ?s = "snd (adm_run cfg_one [Acquire 0, Acquire 1, Acquire 2] init)"
  let ?r = "adm_run cfg_one [Release, Acquire 3, Release] ?s"
  have r0: "adm_run cfg_one [Acquire 0, Acquire 1, Acquire 2] init =
      (fst (adm_run cfg_one [Acquire 0, Acquire 1, Acquire 2] init), ?s)"
    by (rule surjective_pairing)
  have q: "waitQueue ?s = [] @ 1 # [2]"
    by (simp add: acquireSlot_def releaseSlot_def init_def cfg_one_def)
  have r: "?r = (fst ?r, snd ?r)" by (rule surjective_pairing)
  have e: "fst ?r = [Released, Granted 1, Released, Granted 2]"
    by (simp add: acquireSlot_def releaseSlot_def init_def cfg_one_def)
  have g: "Granted 2 \<in> set (fst ?r)" by (simp only: e) simp
  have n1: "(2::nat) \<notin> set []" by simp
  have n2: "(2::nat) \<noteq> 1" by simp
  have f: "\<exists>e1 e2. fst ?r = e1 @ Granted 1 # e2 \<and> Granted 2 \<notin> set e1"
    by (rule conjunct1 [OF fifo_admission [OF r0 q n1 n2 r g]])
  show ?thesis by (rule conjI [OF q conjI [OF e f]])
qed

subsection \<open>The font cache\<close>

text \<open>
  The key of a value that is neither a string nor an array names no property of
  \<^verbatim>\<open>FONT_URLS\<close>: the names all begin with a letter or an underscore and are none of
  \<^verbatim>\<open>undefined\<close>, \<^verbatim>\<open>null\<close>, \<^verbatim>\<open>true\<close>, \<^verbatim>\<open>false\<close> and \<^verbatim>\<open>[object Object]\<close>.
\<close>

lemma show_nat_head: "show_nat n \<noteq> [] \<and> hd (show_nat n) \<in> set ''0123456789''"
proof (induction n rule: show_nat.induct)
  case (1 n)
  show ?case
  proof (cases "n < 10")
    case True
    then have "show_nat n = [''0123456789'' ! n]" by (subst show_nat.simps) simp
    moreover from True have "''0123456789'' ! n \<in> set ''0123456789''"
      by (intro nth_mem) simp
    ultimately show ?thesis by simp
  next
    case False
    then have "show_nat n = show_nat (n div 10) @ [''0123456789'' ! (n mod 10)]"
      by (subst show_nat.simps) simp
    with 1 [OF False] show ?thesis by simp
  qed
qed

lemma show_int_head: "show_int n \<noteq> [] \<and> hd (show_int n) \<in> set ''-0123456789''"
  using show_nat_head [of "nat n"] by (auto simp add: show_int_def)

lemma FONT_URLS_head:
  "FONT_URLS k = Some url \<Longrightarrow> k \<noteq> [] \<and> hd k \<in> set ''ILMNOPR_chiptv''"
proof -
  assume "FONT_URLS k = Some url"
  then have "(k, url) \<in> set
    ([(''Inter'', ''https://fonts.googleapis.com/css2?family=Inter:wght@300;400;500;600;700&display=swap''),
      (''Noto Serif'', ''https://fonts.googleapis.com/css2?family=Noto+Serif:ital,wght@0,400;0,500;0,600;0,700;1,400&display=swap''),
      (''Roboto'', ''https://fonts.googleapis.com/css2?family=Roboto:wght@300;400;500;700&display=swap''),
      (''Open Sans'', ''https://fonts.googleapis.com/css2?family=Open+Sans:wght@300;400;600;700&display=swap''),
      (''Lato'', ''https://fonts.googleapis.com/css2?family=Lato:wght@300;400;700&display=swap''),
      (''Montserrat'', ''https://fonts.googleapis.com/css2?family=Montserrat:wght@300;400;500;600;700&display=swap''),
      (''Playfair Display'', ''https://fonts.googleapis.com/css2?family=Playfair+Display:wght@400;500;600;700&display=swap'')]
     @ Object_prototype)"
    unfolding FONT_URLS_def by (rule map_of_SomeD)
  then show ?thesis unfolding Object_prototype_def by auto
qed

lemma primitive_names_no_font:
  "FONT_URLS (ToString JUndefined) = None"
  "FONT_URLS (ToString JNull) = None"
  "FONT_URLS (ToString (JBool b)) = None"
  "FONT_URLS (ToString (JNum n)) = None"
  "FONT_URLS (ToString JObj) = None"
proof -
  show "FONT_URLS (ToString JUndefined) = None" "FONT_URLS (ToString JNull) = None"
    "FONT_URLS (ToString (JBool b)) = None" "FONT_URLS (ToString JObj) = None"
    by (simp_all add: FONT_URLS_def Object_prototype_def)
  show "FONT_URLS (ToString (JNum n)) = None"
  proof (cases "FONT_URLS (show_int n)")
    case None
    then show ?thesis by simp
  next
    case (Some url)
    from FONT_URLS_head [OF Some] show_int_head [of n] show ?thesis by auto
  qed
qed

text \<open>
  What line 261 makes of some values of \<^verbatim>\<open>fontFamily\<close>: an array that holds one name
  stands for that name, also for \<^verbatim>\<open>Inter\<close>, which as a string is excluded, and the
  names that \<^verbatim>\<open>FONT_URLS\<close> inherits are taken for fonts.
\<close>

lemma requested_font_examples:
  "requested_font (r\<lparr>fontFamily := JStr ''Roboto''\<rparr>) = Some ''Roboto''"
  "requested_font (r\<lparr>fontFamily := JArr [JStr ''Roboto'']\<rparr>) = Some ''Roboto''"
  "requested_font (r\<lparr>fontFamily := JArr [JArr [JStr ''Open Sans'']]\<rparr>) = Some ''Open Sans''"
  "requested_font (r\<lparr>fontFamily := JStr ''Inter''\<rparr>) = None"
  "requested_font (r\<lparr>fontFamily := JArr [JStr ''Inter'']\<rparr>) = Some ''Inter''"
  "requested_font (r\<lparr>fontFamily := JStr ''constructor''\<rparr>) = Some ''constructor''"
  "requested_font (r\<lparr>fontFamily := JStr ''__proto__''\<rparr>) = Some ''__proto__''"
  "requested_font (r\<lparr>fontFamily := JStr ''Comic Sans''\<rparr>) = None"
  "requested_font (r\<lparr>fontFamily := JArr [JStr ''Roboto'', JStr ''Lato'']\<rparr>) = None"
  "requested_font (r\<lparr>fontFamily := JUndefined\<rparr>) = None"
  "requested_font (r\<lparr>fontFamily := JObj\<rparr>) = None"
  by (simp_all add: requested_font_def FONT_URLS_def Object_prototype_def)

lemma requested_font_known: "requested_font r = Some k \<Longrightarrow> \<exists>url. FONT_URLS k = Some url"
  by (auto simp add: requested_font_def split: if_splits)

lemma requested_font_miss:
  "requested_font r = Some k \<Longrightarrow> fontCSSCache s k = None \<Longrightarrow> cache_get (fontFamily r) s = None"
  by (cases "fontFamily r") (auto simp add: requested_font_def cache_get_def split: if_splits)

lemma settle_fetch_rejected:
  "jobs s j = Some jb \<Longrightarrow> pc jb = AwaitFetch k \<or> pc jb = AwaitText k \<Longrightarrow>
   settle cfg j (Rejected e) s = set_content j (fontCSS jb @ [CHR 0x0A]) s"
  by (auto simp add: settle_def font_fetched_def font_text_def getFontCSS_fetched_def
      getFontCSS_text_def)

lemma settle_fetch_resolved:
  "jobs s j = Some jb \<Longrightarrow> pc jb = AwaitFetch k \<Longrightarrow>
   settle cfg j (Resolved v) s = set_pc j (AwaitText k) (emit j ResText s)"
  by (simp add: settle_def font_fetched_def getFontCSS_fetched_def)

lemma settle_text_resolved:
  "jobs s j = Some jb \<Longrightarrow> pc jb = AwaitText k \<Longrightarrow>
   settle cfg j (Resolved body) s =
     set_content j (fontCSS jb @ [CHR 0x0A] @ body) (cache_set j (fontFamily (jreq jb)) body s)"
  by (simp add: settle_def font_text_def getFontCSS_text_def)

lemma settle_viewport_miss:
  "jobs s j = Some jb \<Longrightarrow> pc jb = AwaitViewport \<Longrightarrow> requested_font (jreq jb) = Some k
   \<Longrightarrow> FONT_URLS k = Some url \<Longrightarrow> cache_get (fontFamily (jreq jb)) s = None \<Longrightarrow>
   settle cfg j (Resolved v) s =
     set_pc j (AwaitFetch k)
       (upd_job j (\<lambda>jb. jb\<lparr>fontCSS :=
           (if interFontCSS cfg \<noteq> [] then interFontCSS cfg else localInterFontFace)\<rparr>)
         (emit j (Fetch url) s))"
  by (auto simp add: settle_def viewport_set_def getFontCSS_def requested_font_def Let_def
      split: if_splits)

lemma settle_viewport_hit:
  "jobs s j = Some jb \<Longrightarrow> pc jb = AwaitViewport \<Longrightarrow> requested_font (jreq jb) = Some k
   \<Longrightarrow> cache_get (fontFamily (jreq jb)) s = Some cached \<Longrightarrow>
   settle cfg j (Resolved v) s =
     set_content j ((if interFontCSS cfg \<noteq> [] then interFontCSS cfg else localInterFontFace)
                     @ [CHR 0x0A] @ cached) s"
  by (auto simp add: settle_def viewport_set_def getFontCSS_def requested_font_def Let_def
      split: if_splits)

text \<open>
  C7, as the claim states it, fails: after a failed fetch for Roboto the cache holds
  nothing for the key, and the next lookup of the font issues a second fetch.
\<close>

theorem failed_fetch_is_not_cached_counterexample:
  "fontCSSCache fetch_failed ''Roboto'' = None
   \<and> count_list (map snd (trace refetched)) (Fetch roboto_url) = 2"
  by (simp add: model_defs scenario_defs Let_def)

text \<open>
  C7, amended. When the fetch for a known key, or the reading of its body, fails, the call
  returns the empty string without another attempt (the job goes on to
  \<^verbatim>\<open>page.setContent\<close> with nothing appended to its font CSS) and the cache is left as
  it was. The key therefore stays unpopulated, and in any state in which it is
  unpopulated a job that looks it up issues a fetch.
\<close>

theorem failed_fetch_leaves_key_unpopulated:
  assumes "jobs s j = Some jb" and "pc jb = AwaitFetch k \<or> pc jb = AwaitText k"
  shows "fontCSSCache (step cfg (Settle j (Rejected e)) s) = fontCSSCache s
       \<and> trace (step cfg (Settle j (Rejected e)) s) =
           trace s @ [(j, SetContent (fontCSS jb @ [CHR 0x0A])
                           (if truthy (css (jreq jb)) then css (jreq jb) else JStr [])
                           (html (jreq jb)))]
       \<and> (\<forall>j' jb' v. jobs t j' = Some jb' \<and> pc jb' = AwaitViewport
              \<and> requested_font (jreq jb') = Some k \<and> fontCSSCache t k = None
            \<longrightarrow> (\<exists>url. FONT_URLS k = Some url
                 \<and> trace (step cfg (Settle j' (Resolved v)) t) = trace t @ [(j', Fetch url)]))"
proof (intro conjI allI impI)
  have st: "step cfg (Settle j (Rejected e)) s = set_content j (fontCSS jb @ [CHR 0x0A]) s"
    using settle_fetch_rejected [OF assms] by (simp add: step_def)
  show "fontCSSCache (step cfg (Settle j (Rejected e)) s) = fontCSSCache s"
    by (simp add: st set_content_fields)
  show "trace (step cfg (Settle j (Rejected e)) s) =
           trace s @ [(j, SetContent (fontCSS jb @ [CHR 0x0A])
                           (if truthy (css (jreq jb)) then css (jreq jb) else JStr [])
                           (html (jreq jb)))]"
    by (simp only: st set_content_trace [OF assms(1)])
next
  fix j' jb' v
  assume a: "jobs t j' = Some jb' \<and> pc jb' = AwaitViewport
              \<and> requested_font (jreq jb') = Some k \<and> fontCSSCache t k = None"
  then obtain url where u: "FONT_URLS k = Some url" using requested_font_known by blast
  from a have m: "cache_get (fontFamily (jreq jb')) t = None"
    using requested_font_miss by blast
  from a u m settle_viewport_miss [of t j' jb' k url cfg v]
  have "trace (step cfg (Settle j' (Resolved v)) t) = trace t @ [(j', Fetch url)]"
    by (simp add: step_def)
  with u show "\<exists>url. FONT_URLS k = Some url
                 \<and> trace (step cfg (Settle j' (Resolved v)) t) = trace t @ [(j', Fetch url)]"
    by blast
qed

lemma one_fetching_job0:
  "jobs one_fetching 0 =
     Some \<lparr>jreq = req_roboto, pc = AwaitFetch ''Roboto'', page = True,
           fontCSS = ''/* Inter */'', responded = None\<rparr>"
  by (simp add: model_defs scenario_defs Let_def)

lemma fetch_failed_job1:
  "jobs fetch_failed 1 =
     Some \<lparr>jreq = req_roboto, pc = AwaitViewport, page = True, fontCSS = [], responded = None\<rparr>"
  by (simp add: model_defs scenario_defs Let_def)

lemma requested_font_roboto:
  "requested_font req_roboto = Some ''Roboto''"
  "requested_font req_roboto_array = Some ''Roboto''"
  "FONT_URLS ''Roboto'' = Some roboto_url"
  by (simp_all add: requested_font_def req_roboto_def req_roboto_array_def FONT_URLS_def
      roboto_url_def)

theorem failed_fetch_leaves_key_unpopulated_witness:
  "map_option pc (jobs one_fetching 0) = Some (AwaitFetch ''Roboto'')
   \<and> fontCSSCache fetch_failed = fontCSSCache one_fetching
   \<and> fontCSSCache fetch_failed ''Roboto'' = None
   \<and> (\<exists>url. FONT_URLS ''Roboto'' = Some url
          \<and> trace refetched = trace fetch_failed @ [(1, Fetch url)])"
proof -
  note w = failed_fetch_leaves_key_unpopulated
    [OF one_fetching_job0, of "''Roboto''" cfg_open "''fetch failed''" fetch_failed, simplified]
  have p: "map_option pc (jobs one_fetching 0) = Some (AwaitFetch ''Roboto'')"
    by (simp add: one_fetching_job0)
  have c: "fontCSSCache fetch_failed = fontCSSCache one_fetching"
    unfolding fetch_failed_def by (rule conjunct1 [OF w])
  have n: "fontCSSCache fetch_failed ''Roboto'' = None"
    by (simp add: model_defs scenario_defs Let_def)
  from w fetch_failed_job1 n requested_font_roboto(1)
  have f: "\<exists>url. FONT_URLS ''Roboto'' = Some url
          \<and> trace refetched = trace fetch_failed @ [(1, Fetch url)]"
    unfolding refetched_def by fastforce
  show ?thesis by (rule conjI [OF p conjI [OF c conjI [OF n f]]])
qed

text \<open>A lookup that misses changes nothing that another job's lookup reads.\<close>

lemma viewport_misses_fetch:
  "distinct js \<Longrightarrow>
   \<forall>j\<in>set js. \<exists>jb. jobs s j = Some jb \<and> pc jb = AwaitViewport
                    \<and> requested_font (jreq jb) = Some k \<Longrightarrow>
   FONT_URLS k = Some url \<Longrightarrow> fontCSSCache s k = None \<Longrightarrow>
   trace (run cfg (map (\<lambda>j. Settle j (Resolved v)) js) s) = trace s @ map (\<lambda>j. (j, Fetch url)) js"
proof (induction js arbitrary: s)
  case Nil
  then show ?case by simp
next
  case (Cons j js)
  from Cons.prems(2) obtain jb where jb: "jobs s j = Some jb" "pc jb = AwaitViewport"
    "requested_font (jreq jb) = Some k" by auto
  have m: "cache_get (fontFamily (jreq jb)) s = None"
    by (rule requested_font_miss [OF jb(3) Cons.prems(4)])
  let ?s1 = "step cfg (Settle j (Resolved v)) s"
  have s1: "?s1 = set_pc j (AwaitFetch k)
       (upd_job j (\<lambda>jb. jb\<lparr>fontCSS :=
           (if interFontCSS cfg \<noteq> [] then interFontCSS cfg else localInterFontFace)\<rparr>)
         (emit j (Fetch url) s))"
    using settle_viewport_miss [OF jb Cons.prems(3) m] by (simp add: step_def)
  have tr: "trace ?s1 = trace s @ [(j, Fetch url)]" by (simp add: s1)
  have cache: "fontCSSCache ?s1 k = None" using Cons.prems(4) by (simp add: s1)
  have others: "\<forall>i\<in>set js. \<exists>jb. jobs ?s1 i = Some jb \<and> pc jb = AwaitViewport
                    \<and> requested_font (jreq jb) = Some k"
  proof
    fix i assume i: "i \<in> set js"
    with Cons.prems(1) have "i \<noteq> j" by auto
    then have "jobs ?s1 i = jobs s i" by (simp add: s1 set_pc_jobs upd_job_jobs)
    with Cons.prems(2) i show "\<exists>jb. jobs ?s1 i = Some jb \<and> pc jb = AwaitViewport
                    \<and> requested_font (jreq jb) = Some k" by simp
  qed
  from Cons.prems(1) have d: "distinct js" by simp
  from Cons.IH [OF d others Cons.prems(3) cache] tr show ?case by simp
qed

text \<open>
  C6, as the claim states it, fails: two jobs that look Roboto up while it is unpopulated
  (the warm-up has not stored it) issue two fetches, and when one fetch succeeds and the
  other fails the two jobs build their documents from different font CSS.
\<close>

theorem concurrent_misses_fetch_twice_counterexample:
  "count_list (map snd (trace both_fetching)) (Fetch roboto_url) = 2
   \<and> last (effects_of 0 fetched_differently) =
       SetContent (''/* Inter */'' @ [CHR 0x0A] @ ''body{}'') (JStr []) (JStr ''<p>cv</p>'')
   \<and> last (effects_of 1 fetched_differently) =
       SetContent (''/* Inter */'' @ [CHR 0x0A]) (JStr []) (JStr ''<p>cv</p>'')"
  by (simp add: model_defs scenario_defs Let_def)

text \<open>
  C6, amended. Let \<open>k\<close> be a key that \<^verbatim>\<open>FONT_URLS\<close> knows and for which nothing is
  stored. Each of the jobs that look it up before a value is stored issues a fetch of its
  own: \<open>M\<close> lookups issue \<open>M\<close> fetches. A job whose fetch resolves reads the body and, when
  that resolves too, uses that text; a job whose fetch or whose reading fails uses the
  empty string, and stores nothing. The text is stored under the value of
  \<^verbatim>\<open>fontFamily\<close> itself: under the key when that value is the string \<open>k\<close>, and out of
  reach of every lookup by name when it is an array that converts to \<open>k\<close>. A lookup by
  the string \<open>k\<close> made once the key is populated issues no fetch and uses the stored
  value; a lookup by an array that converts to \<open>k\<close> issues a fetch whatever is stored.
\<close>

theorem every_miss_issues_its_own_fetch:
  assumes "distinct js"
      and "\<forall>j\<in>set js. \<exists>jb. jobs s j = Some jb \<and> pc jb = AwaitViewport
                          \<and> requested_font (jreq jb) = Some k"
      and "fontCSSCache s k = None" and "FONT_URLS k = Some url"
  shows "trace (run cfg (map (\<lambda>j. Settle j (Resolved v)) js) s) =
           trace s @ map (\<lambda>j. (j, Fetch url)) js
       \<and> (\<forall>j jb. jobs t j = Some jb \<and> pc jb = AwaitFetch k \<longrightarrow>
            trace (step cfg (Settle j (Resolved v)) t) = trace t @ [(j, ResText)]
            \<and> map_option pc (jobs (step cfg (Settle j (Resolved v)) t) j) = Some (AwaitText k))
       \<and> (\<forall>j jb body. jobs t j = Some jb \<and> pc jb = AwaitText k \<longrightarrow>
            trace (step cfg (Settle j (Resolved body)) t) =
              trace t @ [(j, SetContent (fontCSS jb @ [CHR 0x0A] @ body)
                               (if truthy (css (jreq jb)) then css (jreq jb) else JStr [])
                               (html (jreq jb)))]
            \<and> (fontFamily (jreq jb) = JStr k \<longrightarrow>
                 fontCSSCache (step cfg (Settle j (Resolved body)) t) k = Some body)
            \<and> (\<forall>xs. fontFamily (jreq jb) = JArr xs \<longrightarrow>
                 fontCSSCache (step cfg (Settle j (Resolved body)) t) = fontCSSCache t
                 \<and> fontCSSCacheByObject (step cfg (Settle j (Resolved body)) t) =
                     fontCSSCacheByObject t @ [(j, body)]))
       \<and> (\<forall>j jb e. jobs t j = Some jb \<and> (pc jb = AwaitFetch k \<or> pc jb = AwaitText k) \<longrightarrow>
            trace (step cfg (Settle j (Rejected e)) t) =
              trace t @ [(j, SetContent (fontCSS jb @ [CHR 0x0A])
                               (if truthy (css (jreq jb)) then css (jreq jb) else JStr [])
                               (html (jreq jb)))]
            \<and> fontCSSCache (step cfg (Settle j (Rejected e)) t) = fontCSSCache t
            \<and> fontCSSCacheByObject (step cfg (Settle j (Rejected e)) t) = fontCSSCacheByObject t)
       \<and> (\<forall>j jb cached. jobs t j = Some jb \<and> pc jb = AwaitViewport
              \<and> fontFamily (jreq jb) = JStr k \<and> requested_font (jreq jb) = Some k
              \<and> fontCSSCache t k = Some cached \<longrightarrow>
            trace (step cfg (Settle j (Resolved v)) t) =
              trace t @ [(j, SetContent
                   ((if interFontCSS cfg \<noteq> [] then interFontCSS cfg else localInterFontFace)
                      @ [CHR 0x0A] @ cached)
                   (if truthy (css (jreq jb)) then css (jreq jb) else JStr [])
                   (html (jreq jb)))])
       \<and> (\<forall>j jb xs. jobs t j = Some jb \<and> pc jb = AwaitViewport
              \<and> fontFamily (jreq jb) = JArr xs \<and> requested_font (jreq jb) = Some k \<longrightarrow>
            trace (step cfg (Settle j (Resolved v)) t) = trace t @ [(j, Fetch url)])"
proof (intro conjI)
  show "trace (run cfg (map (\<lambda>j. Settle j (Resolved v)) js) s) =
           trace s @ map (\<lambda>j. (j, Fetch url)) js"
    by (rule viewport_misses_fetch [OF assms(1,2,4,3)])
  show "\<forall>j jb. jobs t j = Some jb \<and> pc jb = AwaitFetch k \<longrightarrow>
            trace (step cfg (Settle j (Resolved v)) t) = trace t @ [(j, ResText)]
            \<and> map_option pc (jobs (step cfg (Settle j (Resolved v)) t) j) = Some (AwaitText k)"
    by (simp add: step_def settle_fetch_resolved set_pc_jobs)
  show "\<forall>j jb body. jobs t j = Some jb \<and> pc jb = AwaitText k \<longrightarrow>
            trace (step cfg (Settle j (Resolved body)) t) =
              trace t @ [(j, SetContent (fontCSS jb @ [CHR 0x0A] @ body)
                               (if truthy (css (jreq jb)) then css (jreq jb) else JStr [])
                               (html (jreq jb)))]
            \<and> (fontFamily (jreq jb) = JStr k \<longrightarrow>
                 fontCSSCache (step cfg (Settle j (Resolved body)) t) k = Some body)
            \<and> (\<forall>xs. fontFamily (jreq jb) = JArr xs \<longrightarrow>
                 fontCSSCache (step cfg (Settle j (Resolved body)) t) = fontCSSCache t
                 \<and> fontCSSCacheByObject (step cfg (Settle j (Resolved body)) t) =
                     fontCSSCacheByObject t @ [(j, body)])"
  proof (intro allI impI)
    fix j jb body
    assume a: "jobs t j = Some jb \<and> pc jb = AwaitText k"
    let ?t1 = "cache_set j (fontFamily (jreq jb)) body t"
    from a have st: "step cfg (Settle j (Resolved body)) t =
        set_content j (fontCSS jb @ [CHR 0x0A] @ body) ?t1"
      using settle_text_resolved [of t j jb k cfg body] by (simp add: step_def)
    from a have jb: "jobs ?t1 j = Some jb" by simp
    have tr: "trace (step cfg (Settle j (Resolved body)) t) =
              trace t @ [(j, SetContent (fontCSS jb @ [CHR 0x0A] @ body)
                               (if truthy (css (jreq jb)) then css (jreq jb) else JStr [])
                               (html (jreq jb)))]"
      by (simp add: st set_content_trace [OF jb])
    have str: "fontFamily (jreq jb) = JStr k \<longrightarrow>
                 fontCSSCache (step cfg (Settle j (Resolved body)) t) k = Some body"
      by (simp add: st set_content_fields)
    have arr: "\<forall>xs. fontFamily (jreq jb) = JArr xs \<longrightarrow>
                 fontCSSCache (step cfg (Settle j (Resolved body)) t) = fontCSSCache t
                 \<and> fontCSSCacheByObject (step cfg (Settle j (Resolved body)) t) =
                     fontCSSCacheByObject t @ [(j, body)]"
      by (simp add: st set_content_fields)
    from tr str arr
    show "trace (step cfg (Settle j (Resolved body)) t) =
              trace t @ [(j, SetContent (fontCSS jb @ [CHR 0x0A] @ body)
                               (if truthy (css (jreq jb)) then css (jreq jb) else JStr [])
                               (html (jreq jb)))]
            \<and> (fontFamily (jreq jb) = JStr k \<longrightarrow>
                 fontCSSCache (step cfg (Settle j (Resolved body)) t) k = Some body)
            \<and> (\<forall>xs. fontFamily (jreq jb) = JArr xs \<longrightarrow>
                 fontCSSCache (step cfg (Settle j (Resolved body)) t) = fontCSSCache t
                 \<and> fontCSSCacheByObject (step cfg (Settle j (Resolved body)) t) =
                     fontCSSCacheByObject t @ [(j, body)])"
      by blast
  qed
  show "\<forall>j jb e. jobs t j = Some jb \<and> (pc jb = AwaitFetch k \<or> pc jb = AwaitText k) \<longrightarrow>
            trace (step cfg (Settle j (Rejected e)) t) =
              trace t @ [(j, SetContent (fontCSS jb @ [CHR 0x0A])
                               (if truthy (css (jreq jb)) then css (jreq jb) else JStr [])
                               (html (jreq jb)))]
            \<and> fontCSSCache (step cfg (Settle j (Rejected e)) t) = fontCSSCache t
            \<and> fontCSSCacheByObject (step cfg (Settle j (Rejected e)) t) = fontCSSCacheByObject t"
  proof (intro allI impI)
    fix j jb e
    assume a: "jobs t j = Some jb \<and> (pc jb = AwaitFetch k \<or> pc jb = AwaitText k)"
    then have jb: "jobs t j = Some jb" and p: "pc jb = AwaitFetch k \<or> pc jb = AwaitText k"
      by simp_all
    have st: "step cfg (Settle j (Rejected e)) t = set_content j (fontCSS jb @ [CHR 0x0A]) t"
      using settle_fetch_rejected [OF jb p] by (simp add: step_def)
    show "trace (step cfg (Settle j (Rejected e)) t) =
              trace t @ [(j, SetContent (fontCSS jb @ [CHR 0x0A])
                               (if truthy (css (jreq jb)) then css (jreq jb) else JStr [])
                               (html (jreq jb)))]
            \<and> fontCSSCache (step cfg (Settle j (Rejected e)) t) = fontCSSCache t
            \<and> fontCSSCacheByObject (step cfg (Settle j (Rejected e)) t) = fontCSSCacheByObject t"
      by (simp add: st set_content_fields set_content_trace [OF jb])
  qed
  show "\<forall>j jb cached. jobs t j = Some jb \<and> pc jb = AwaitViewport
              \<and> fontFamily (jreq jb) = JStr k \<and> requested_font (jreq jb) = Some k
              \<and> fontCSSCache t k = Some cached \<longrightarrow>
            trace (step cfg (Settle j (Resolved v)) t) =
              trace t @ [(j, SetContent
                   ((if interFontCSS cfg \<noteq> [] then interFontCSS cfg else localInterFontFace)
                      @ [CHR 0x0A] @ cached)
                   (if truthy (css (jreq jb)) then css (jreq jb) else JStr [])
                   (html (jreq jb)))]"
  proof (intro allI impI)
    fix j jb cached
    assume a: "jobs t j = Some jb \<and> pc jb = AwaitViewport
                \<and> fontFamily (jreq jb) = JStr k \<and> requested_font (jreq jb) = Some k
                \<and> fontCSSCache t k = Some cached"
    then have jb: "jobs t j = Some jb" by simp
    from a have h: "cache_get (fontFamily (jreq jb)) t = Some cached"
      by (simp add: cache_get_def)
    from a h settle_viewport_hit [of t j jb k cached cfg v]
    show "trace (step cfg (Settle j (Resolved v)) t) =
                trace t @ [(j, SetContent
                     ((if interFontCSS cfg \<noteq> [] then interFontCSS cfg else localInterFontFace)
                        @ [CHR 0x0A] @ cached)
                     (if truthy (css (jreq jb)) then css (jreq jb) else JStr [])
                     (html (jreq jb)))]"
      by (simp add: step_def set_content_trace [OF jb])
  qed
  show "\<forall>j jb xs. jobs t j = Some jb \<and> pc jb = AwaitViewport
              \<and> fontFamily (jreq jb) = JArr xs \<and> requested_font (jreq jb) = Some k \<longrightarrow>
            trace (step cfg (Settle j (Resolved v)) t) = trace t @ [(j, Fetch url)]"
  proof (intro allI impI)
    fix j jb xs
    assume a: "jobs t j = Some jb \<and> pc jb = AwaitViewport
              \<and> fontFamily (jreq jb) = JArr xs \<and> requested_font (jreq jb) = Some k"
    then have m: "cache_get (fontFamily (jreq jb)) t = None" by (simp add: cache_get_def)
    from a m assms(4) settle_viewport_miss [of t j jb k url cfg v]
    show "trace (step cfg (Settle j (Resolved v)) t) = trace t @ [(j, Fetch url)]"
      by (simp add: step_def)
  qed
qed

lemma both_at_viewport_jobs:
  "jobs both_at_viewport 0 =
     Some \<lparr>jreq = req_roboto, pc = AwaitViewport, page = True, fontCSS = [], responded = None\<rparr>"
  "jobs both_at_viewport 1 =
     Some \<lparr>jreq = req_roboto, pc = AwaitViewport, page = True, fontCSS = [], responded = None\<rparr>"
  by (simp_all add: model_defs scenario_defs Let_def)

lemma array_at_viewport_state:
  "jobs array_at_viewport 1 =
     Some \<lparr>jreq = req_roboto_array, pc = AwaitViewport, page = True, fontCSS = [],
           responded = None\<rparr>"
  "fontCSSCache array_at_viewport ''Roboto'' = Some ''body{}''"
  by (simp_all add: model_defs scenario_defs Let_def)

theorem every_miss_issues_its_own_fetch_witness:
  "distinct [0, 1::nat]
   \<and> fontCSSCache both_at_viewport ''Roboto'' = None
   \<and> FONT_URLS ''Roboto'' = Some roboto_url
   \<and> trace (run cfg_open (map (\<lambda>j. Settle j ok) [0, 1]) both_at_viewport) =
       trace both_at_viewport @ map (\<lambda>j. (j, Fetch roboto_url)) [0, 1]
   \<and> fontCSSCache array_at_viewport ''Roboto'' = Some ''body{}''
   \<and> trace (step cfg_open (Settle 1 ok) array_at_viewport) =
       trace array_at_viewport @ [(1, Fetch roboto_url)]"
proof -
  have d: "distinct [0, 1::nat]" by simp
  have a: "\<forall>j\<in>set [0, 1::nat]. \<exists>jb. jobs both_at_viewport j = Some jb \<and> pc jb = AwaitViewport
                          \<and> requested_font (jreq jb) = Some ''Roboto''"
    using both_at_viewport_jobs requested_font_roboto(1) by simp
  have n: "fontCSSCache both_at_viewport ''Roboto'' = None"
    by (simp add: model_defs scenario_defs Let_def)
  note u = requested_font_roboto(3)
  note w = every_miss_issues_its_own_fetch [OF d a n u, of cfg_open "[]" array_at_viewport]
  have f: "trace (run cfg_open (map (\<lambda>j. Settle j ok) [0, 1]) both_at_viewport) =
       trace both_at_viewport @ map (\<lambda>j. (j, Fetch roboto_url)) [0, 1]"
    by (rule conjunct1 [OF w])
  from w array_at_viewport_state(1) requested_font_roboto(2)
  have g: "trace (step cfg_open (Settle 1 ok) array_at_viewport) =
       trace array_at_viewport @ [(1, Fetch roboto_url)]"
    by (simp add: req_roboto_array_def)
  show ?thesis
    by (rule conjI [OF d conjI [OF n conjI [OF u conjI [OF f
          conjI [OF array_at_viewport_state(2) g]]]]])
qed

subsection \<open>The shared browser\<close>

lemma post_launches:
  "\<not> unauthorized cfg r \<Longrightarrow> truthy (html r) \<Longrightarrow> activeJobs s < MAX_CONCURRENT cfg
   \<Longrightarrow> browser s = None \<Longrightarrow>
   post cfg r s =
     s\<lparr>activeJobs := activeJobs s + 1, nextHandle := Suc (nextHandle s), nextJob := Suc (nextJob s),
       jobs := (jobs s)(nextJob s \<mapsto>
          \<lparr>jreq = r, pc = AwaitLaunch (nextHandle s), page = False, fontCSS = [], responded = None\<rparr>),
       trace := trace s @ [(nextJob s, SlotAcquired), (nextJob s, Launch (nextHandle s))]\<rparr>"
  by (simp add: post_def acquireSlot_def render_start_def getBrowser_def launch_def set_pc_def
      upd_job_def emit_def Let_def)

lemma post_uses_live_browser:
  "\<not> unauthorized cfg r \<Longrightarrow> truthy (html r) \<Longrightarrow> activeJobs s < MAX_CONCURRENT cfg
   \<Longrightarrow> browser s = Some h \<Longrightarrow> browserConnected s h \<Longrightarrow>
   trace (post cfg r s) = trace s @ [(nextJob s, SlotAcquired), (nextJob s, NewPage h)]"
  by (simp add: post_def acquireSlot_def render_start_def getBrowser_def got_browser_def set_pc_def
      upd_job_def emit_def Let_def)

lemma post_closes_stale_browser:
  "\<not> unauthorized cfg r \<Longrightarrow> truthy (html r) \<Longrightarrow> activeJobs s < MAX_CONCURRENT cfg
   \<Longrightarrow> browser s = Some h \<Longrightarrow> \<not> browserConnected s h \<Longrightarrow>
   trace (post cfg r s) = trace s @ [(nextJob s, SlotAcquired), (nextJob s, BrowserClose h)]"
  by (simp add: post_def acquireSlot_def render_start_def getBrowser_def set_pc_def
      upd_job_def emit_def Let_def)

lemma settle_launch_resolved:
  "jobs s j = Some jb \<Longrightarrow> pc jb = AwaitLaunch h \<Longrightarrow>
   settle cfg j (Resolved v) s =
     got_browser j h (s\<lparr>browser := Some h, browserConnected := (browserConnected s)(h := True)\<rparr>)"
  by (simp add: settle_def getBrowser_launched_def)

lemma posts_launch:
  "\<forall>r\<in>set rs. \<not> unauthorized cfg r \<and> truthy (html r) \<Longrightarrow>
   activeJobs s + int (length rs) \<le> MAX_CONCURRENT cfg \<Longrightarrow> browser s = None \<Longrightarrow>
   trace (run cfg (map Post rs) s) =
     trace s @ concat (map (\<lambda>i. [(nextJob s + i, SlotAcquired),
                                  (nextJob s + i, Launch (nextHandle s + i))]) [0..<length rs])"
proof (induction rs arbitrary: s)
  case Nil
  then show ?case by simp
next
  case (Cons r rs)
  from Cons.prems have r: "\<not> unauthorized cfg r" "truthy (html r)"
    and free: "activeJobs s < MAX_CONCURRENT cfg" by auto
  let ?s1 = "step cfg (Post r) s"
  have s1: "?s1 = s\<lparr>activeJobs := activeJobs s + 1, nextHandle := Suc (nextHandle s),
       nextJob := Suc (nextJob s),
       jobs := (jobs s)(nextJob s \<mapsto>
          \<lparr>jreq = r, pc = AwaitLaunch (nextHandle s), page = False, fontCSS = [], responded = None\<rparr>),
       trace := trace s @ [(nextJob s, SlotAcquired), (nextJob s, Launch (nextHandle s))]\<rparr>"
    using post_launches [OF r free Cons.prems(3)] by (simp add: step_def)
  have a: "\<forall>r\<in>set rs. \<not> unauthorized cfg r \<and> truthy (html r)" using Cons.prems(1) by simp
  have b: "activeJobs ?s1 + int (length rs) \<le> MAX_CONCURRENT cfg"
    using Cons.prems(2) by (simp add: s1)
  have c: "browser ?s1 = None" using Cons.prems(3) by (simp add: s1)
  from Cons.IH [OF a b c] show ?case
    by (simp add: s1 map_upt_Suc del: upt_Suc)
qed

text \<open>
  C5, as the claim states it, fails: two requests that arrive while no browser is stored
  each call \<^verbatim>\<open>puppeteer.launch\<close>. Job 0 opens its page on browser 0 and job 1 on
  browser 1; the variable \<^verbatim>\<open>browser\<close> keeps the one whose launch settled last.
\<close>

theorem concurrent_callers_launch_twice_counterexample:
  "map snd (trace two_callers) =
     [SlotAcquired, Launch 0, SlotAcquired, Launch 1, NewPage 0, NewPage 1]
   \<and> browser two_callers = Some 1"
  by (simp add: model_defs scenario_defs Let_def)

text \<open>
  C5, amended. Jobs admitted while no browser is stored each launch a browser of their
  own, \<open>N\<close> launches for \<open>N\<close> jobs, and a job whose launch resolves stores that browser and
  opens its page on it. Only a job that finds a connected browser stored launches none and
  uses the stored one. A job that finds a disconnected browser stored closes it and then
  launches one of its own.
\<close>

theorem every_caller_launches_its_own_browser:
  assumes "\<forall>r\<in>set rs. \<not> unauthorized cfg r \<and> truthy (html r)"
      and "activeJobs s + int (length rs) \<le> MAX_CONCURRENT cfg"
      and "browser s = None"
  shows "trace (run cfg (map Post rs) s) =
           trace s @ concat (map (\<lambda>i. [(nextJob s + i, SlotAcquired),
                                        (nextJob s + i, Launch (nextHandle s + i))])
                              [0..<length rs])
       \<and> (\<forall>j jb h v. jobs t j = Some jb \<and> pc jb = AwaitLaunch h \<longrightarrow>
             browser (step cfg (Settle j (Resolved v)) t) = Some h
             \<and> trace (step cfg (Settle j (Resolved v)) t) = trace t @ [(j, NewPage h)])
       \<and> (\<forall>r h. \<not> unauthorized cfg r \<and> truthy (html r) \<and> activeJobs t < MAX_CONCURRENT cfg
              \<and> browser t = Some h \<and> browserConnected t h \<longrightarrow>
             trace (step cfg (Post r) t) =
               trace t @ [(nextJob t, SlotAcquired), (nextJob t, NewPage h)])
       \<and> (\<forall>r h. \<not> unauthorized cfg r \<and> truthy (html r) \<and> activeJobs t < MAX_CONCURRENT cfg
              \<and> browser t = Some h \<and> \<not> browserConnected t h \<longrightarrow>
             trace (step cfg (Post r) t) =
               trace t @ [(nextJob t, SlotAcquired), (nextJob t, BrowserClose h)])
       \<and> (\<forall>j jb out. jobs t j = Some jb \<and> pc jb = AwaitStaleClose \<longrightarrow>
             trace (step cfg (Settle j out) t) = trace t @ [(j, Launch (nextHandle t))])"
proof (intro conjI)
  show "trace (run cfg (map Post rs) s) =
           trace s @ concat (map (\<lambda>i. [(nextJob s + i, SlotAcquired),
                                        (nextJob s + i, Launch (nextHandle s + i))])
                              [0..<length rs])"
    by (rule posts_launch [OF assms])
  show "\<forall>j jb h v. jobs t j = Some jb \<and> pc jb = AwaitLaunch h \<longrightarrow>
             browser (step cfg (Settle j (Resolved v)) t) = Some h
             \<and> trace (step cfg (Settle j (Resolved v)) t) = trace t @ [(j, NewPage h)]"
    by (simp add: step_def settle_launch_resolved got_browser_def)
  show "\<forall>r h. \<not> unauthorized cfg r \<and> truthy (html r) \<and> activeJobs t < MAX_CONCURRENT cfg
              \<and> browser t = Some h \<and> browserConnected t h \<longrightarrow>
             trace (step cfg (Post r) t) =
               trace t @ [(nextJob t, SlotAcquired), (nextJob t, NewPage h)]"
    by (simp add: step_def post_uses_live_browser)
  show "\<forall>r h. \<not> unauthorized cfg r \<and> truthy (html r) \<and> activeJobs t < MAX_CONCURRENT cfg
              \<and> browser t = Some h \<and> \<not> browserConnected t h \<longrightarrow>
             trace (step cfg (Post r) t) =
               trace t @ [(nextJob t, SlotAcquired), (nextJob t, BrowserClose h)]"
    by (simp add: step_def post_closes_stale_browser)
  show "\<forall>j jb out. jobs t j = Some jb \<and> pc jb = AwaitStaleClose \<longrightarrow>
             trace (step cfg (Settle j out) t) = trace t @ [(j, Launch (nextHandle t))]"
    by (simp add: step_def settle_def getBrowser_closed_def launch_def)
qed

theorem every_caller_launches_its_own_browser_witness:
  "\<not> unauthorized cfg_open req_letter \<and> truthy (html req_letter)
   \<and> \<not> unauthorized cfg_open req_roboto \<and> truthy (html req_roboto)
   \<and> activeJobs init + int (length [req_letter, req_roboto]) \<le> MAX_CONCURRENT cfg_open
   \<and> browser init = None
   \<and> trace (run cfg_open (map Post [req_letter, req_roboto]) init) =
       trace init @ concat (map (\<lambda>i. [(nextJob init + i, SlotAcquired),
                                        (nextJob init + i, Launch (nextHandle init + i))])
                              [0..<length [req_letter, req_roboto]])"
proof -
  have a1: "\<not> unauthorized cfg_open req_letter \<and> truthy (html req_letter)"
    by (simp add: unauthorized_def cfg_open_def req_letter_def)
  have a2: "\<not> unauthorized cfg_open req_roboto \<and> truthy (html req_roboto)"
    by (simp add: unauthorized_def cfg_open_def req_roboto_def)
  from a1 a2
  have a: "\<forall>r\<in>set [req_letter, req_roboto]. \<not> unauthorized cfg_open r \<and> truthy (html r)"
    by simp
  have b: "activeJobs init + int (length [req_letter, req_roboto]) \<le> MAX_CONCURRENT cfg_open"
    by (simp add: init_def cfg_open_def)
  have c: "browser init = None" by (simp add: init_def)
  have f: "trace (run cfg_open (map Post [req_letter, req_roboto]) init) =
       trace init @ concat (map (\<lambda>i. [(nextJob init + i, SlotAcquired),
                                        (nextJob init + i, Launch (nextHandle init + i))])
                              [0..<length [req_letter, req_roboto]])"
    by (rule conjunct1 [OF every_caller_launches_its_own_browser [OF a b c]])
  from a1 a2 b c f show ?thesis by blast
qed

subsection \<open>Failure of a render\<close>

text \<open>
  C8. Let a job be suspended on an await of the \<^verbatim>\<open>try\<close> block and let that await be
  rejected with message \<open>e\<close>. If \<open>e\<close> is not crash-class the variable \<^verbatim>\<open>browser\<close> is left
  as it was. If \<open>e\<close> is crash-class the job closes the stored browser, if there is one, and
  sets \<^verbatim>\<open>browser\<close> to null, so that the next caller of \<^verbatim>\<open>getBrowser\<close> launches a
  fresh browser. In every case the job answers 500 and goes to its \<^verbatim>\<open>finally\<close> block:
  after the failure it makes no call but the close of the browser, the answer, the close of
  its page and the release of its slot, so it is not retried.
\<close>

theorem crash_invalidates_shared_browser:
  assumes "jobs s j = Some jb" and "throws_to_catch (pc jb)" and "responded jb = None"
  shows "(\<not> crash_class e \<longrightarrow>
            browser (step cfg (Settle j (Rejected e)) s) = browser s
            \<and> effects_of j (step cfg (Settle j (Rejected e)) s) =
                effects_of j s @ Respond 500 # (if page jb then [PageClose] else [ReleaseSlot]))
       \<and> (crash_class e \<and> browser s = None \<longrightarrow>
            browser (step cfg (Settle j (Rejected e)) s) = None
            \<and> effects_of j (step cfg (Settle j (Rejected e)) s) =
                effects_of j s @ Respond 500 # (if page jb then [PageClose] else [ReleaseSlot]))
       \<and> (\<forall>h. crash_class e \<and> browser s = Some h \<longrightarrow>
            map_option pc (jobs (step cfg (Settle j (Rejected e)) s) j) = Some (AwaitCrashClose h)
            \<and> effects_of j (step cfg (Settle j (Rejected e)) s) =
                effects_of j s @ [BrowserClose h])
       \<and> (\<forall>jb' h out. jobs t j = Some jb' \<and> pc jb' = AwaitCrashClose h \<and> responded jb' = None \<longrightarrow>
            browser (step cfg (Settle j out) t) = None
            \<and> effects_of j (step cfg (Settle j out) t) =
                effects_of j t @ Respond 500 # (if page jb' then [PageClose] else [ReleaseSlot]))
       \<and> (\<forall>i. browser t = None \<longrightarrow>
            getBrowser i t =
              (Suspend (AwaitLaunch (nextHandle t)),
               emit i (Launch (nextHandle t)) (t\<lparr>nextHandle := Suc (nextHandle t)\<rparr>)))"
proof (intro conjI)
  have st: "step cfg (Settle j (Rejected e)) s = catch_block j e s"
    using settle_rejected [OF assms(1,2)] by (simp add: step_def)
  show "\<not> crash_class e \<longrightarrow>
            browser (step cfg (Settle j (Rejected e)) s) = browser s
            \<and> effects_of j (step cfg (Settle j (Rejected e)) s) =
                effects_of j s @ Respond 500 # (if page jb then [PageClose] else [ReleaseSlot])"
    using catch_tail_summary(1,2) [OF assms(1,3)] by (simp add: st catch_block_def)
  have j0: "jobs (s\<lparr>browser := None\<rparr>) j = Some jb" using assms(1) by simp
  show "crash_class e \<and> browser s = None \<longrightarrow>
            browser (step cfg (Settle j (Rejected e)) s) = None
            \<and> effects_of j (step cfg (Settle j (Rejected e)) s) =
                effects_of j s @ Respond 500 # (if page jb then [PageClose] else [ReleaseSlot])"
    using catch_tail_summary(1,2) [OF j0 assms(3)] by (simp add: st catch_block_def)
  show "\<forall>h. crash_class e \<and> browser s = Some h \<longrightarrow>
            map_option pc (jobs (step cfg (Settle j (Rejected e)) s) j) = Some (AwaitCrashClose h)
            \<and> effects_of j (step cfg (Settle j (Rejected e)) s) =
                effects_of j s @ [BrowserClose h]"
    using assms(1) by (simp add: st catch_block_def set_pc_jobs)
  show "\<forall>jb' h out. jobs t j = Some jb' \<and> pc jb' = AwaitCrashClose h \<and> responded jb' = None \<longrightarrow>
            browser (step cfg (Settle j out) t) = None
            \<and> effects_of j (step cfg (Settle j out) t) =
                effects_of j t @ Respond 500 # (if page jb' then [PageClose] else [ReleaseSlot])"
  proof (intro allI impI)
    fix jb' h out
    assume a: "jobs t j = Some jb' \<and> pc jb' = AwaitCrashClose h \<and> responded jb' = None"
    then have j1: "jobs (t\<lparr>browser := None\<rparr>) j = Some jb'" and r: "responded jb' = None"
      by simp_all
    from a have st2: "step cfg (Settle j out) t = catch_tail j (t\<lparr>browser := None\<rparr>)"
      by (simp add: step_def settle_def crash_closed_def)
    from catch_tail_summary(1,2) [OF j1 r]
    show "browser (step cfg (Settle j out) t) = None
            \<and> effects_of j (step cfg (Settle j out) t) =
                effects_of j t @ Respond 500 # (if page jb' then [PageClose] else [ReleaseSlot])"
      by (simp add: st2)
  qed
  show "\<forall>i. browser t = None \<longrightarrow>
            getBrowser i t =
              (Suspend (AwaitLaunch (nextHandle t)),
               emit i (Launch (nextHandle t)) (t\<lparr>nextHandle := Suc (nextHandle t)\<rparr>))"
    by (simp add: getBrowser_def launch_def)
qed

lemma crashed_job:
  "jobs crashed 0 =
     Some \<lparr>jreq = req_letter, pc = AwaitCrashClose 0, page = True, fontCSS = [], responded = None\<rparr>"
  by (simp add: model_defs scenario_defs Let_def)

lemma at_set_content_job:
  "jobs at_set_content 0 =
      Some \<lparr>jreq = req_letter, pc = AwaitSetContent, page = True, fontCSS = [], responded = None\<rparr>"
  by (simp add: model_defs scenario_defs Let_def)

lemma at_set_content_browser: "browser at_set_content = Some 0"
  by (simp add: model_defs scenario_defs Let_def)

theorem crash_invalidates_shared_browser_witness:
  "crash_class ''Protocol error: Target closed''
   \<and> \<not> crash_class ''Navigation timeout of 30000 ms exceeded''
   \<and> browser at_set_content = Some 0
   \<and> browser (step cfg_open (Settle 0 (Rejected ''Navigation timeout of 30000 ms exceeded''))
               at_set_content) = browser at_set_content
   \<and> map_option pc (jobs crashed 0) = Some (AwaitCrashClose 0)
   \<and> browser (step cfg_open (Settle 0 ok) crashed) = None
   \<and> effects_of 0 (step cfg_open (Settle 0 ok) crashed) =
       effects_of 0 crashed @ [Respond 500, PageClose]"
proof -
  have c1: "crash_class ''Protocol error: Target closed''" by (simp add: crash_class_def)
  have c2: "\<not> crash_class ''Navigation timeout of 30000 ms exceeded''"
    by (simp add: crash_class_def)
  have t: "throws_to_catch (pc \<lparr>jreq = req_letter, pc = AwaitSetContent, page = True,
      fontCSS = [], responded = None\<rparr>)" by simp
  have r: "responded \<lparr>jreq = req_letter, pc = AwaitSetContent, page = True,
      fontCSS = [], responded = None\<rparr> = None" by simp
  note w1 = crash_invalidates_shared_browser [OF at_set_content_job t r,
      of "''Navigation timeout of 30000 ms exceeded''" cfg_open crashed]
  note w2 = crash_invalidates_shared_browser [OF at_set_content_job t r,
      of "''Protocol error: Target closed''" cfg_open crashed]
  from w1 c2 have a: "browser (step cfg_open
      (Settle 0 (Rejected ''Navigation timeout of 30000 ms exceeded'')) at_set_content) =
      browser at_set_content" by blast
  from w2 c1 at_set_content_browser
  have b: "map_option pc (jobs crashed 0) = Some (AwaitCrashClose 0)"
    unfolding crashed_def by blast
  from w2 crashed_job
  have d: "browser (step cfg_open (Settle 0 ok) crashed) = None
    \<and> effects_of 0 (step cfg_open (Settle 0 ok) crashed) =
       effects_of 0 crashed @ [Respond 500, PageClose]"
    by fastforce
  show ?thesis
    by (rule conjI [OF c1 conjI [OF c2 conjI [OF at_set_content_browser conjI [OF a conjI [OF b d]]]]])
qed

subsection \<open>A ticket whose timer has fired\<close>

text \<open>
  C3. The claim is that a waiter whose admission timer has fired never receives a slot
  afterwards: a slot released while its ticket heads the queue goes to the next live
  waiter or back to the count. The code does otherwise. A job that times out answers 504
  and returns, but its resolver stays in \<^verbatim>\<open>waitQueue\<close>. When job 0 releases its slot,
  \<^verbatim>\<open>releaseSlot\<close> shifts the resolver of job 1 off the queue and calls it: job 1 has
  only ever answered 504, job 0 has released, no slot is held, and yet \<^verbatim>\<open>activeJobs\<close>
  is 1 and job 2, a live waiter, still waits. The slot is neither forwarded to job 2 nor
  returned to the count.
\<close>

theorem stale_ticket_swallows_slot:
  "effects_of 1 leaked = [Respond 504]
   \<and> map (\<lambda>j. map_option pc (jobs leaked j)) [0, 1, 2] =
       [Some Finished, Some Finished, Some AwaitSlot]
   \<and> releases 0 leaked = 1
   \<and> held leaked = 0
   \<and> activeJobs leaked = 1
   \<and> waitQueue leaked = [2]"
  by (simp add: model_defs scenario_defs Let_def)

subsection \<open>Release on every exit\<close>








end
